theory Spec2Isabelle
  imports Complex_Main "HOL-Library.AList"
begin

section \<open>Data model\<close>

text \<open>
  The server of \<^verbatim>\<open>src/server.ts\<close> fronts an LLM middleware (the collaborator,
  \<^verbatim>\<open>@animalabs/membrane\<close>) with HTTP and Server-Sent-Event endpoints. Its shared
  state is two JavaScript \<^verbatim>\<open>Map\<close>s: \<^verbatim>\<open>sessions\<close> in \<^verbatim>\<open>src/sessions.ts\<close> and
  \<^verbatim>\<open>activeStreams\<close> in \<^verbatim>\<open>src/server.ts\<close>. A \<^verbatim>\<open>Map\<close> is modelled as an association
  list in insertion order, with \<^const>\<open>AList.update\<close> for \<^verbatim>\<open>set\<close>,
  \<^const>\<open>AList.delete\<close> for \<^verbatim>\<open>delete\<close>, \<^const>\<open>map_of\<close> for \<^verbatim>\<open>get\<close> and
  \<^const>\<open>length\<close> for \<^verbatim>\<open>size\<close>.

  JSON values that the server only passes through (tool inputs, schemas, thinking and
  provider configuration) are kept as text. Token counts and millisecond timestamps are
  JavaScript numbers holding integers, modelled as \<^typ>\<open>int\<close>; \<^verbatim>\<open>maxTokens\<close> and
  \<^verbatim>\<open>temperature\<close> are arbitrary finite JSON numbers, modelled as \<^typ>\<open>real\<close>.
  An optional property is an \<^typ>\<open>'a option\<close>, \<^const>\<open>None\<close> standing for
  \<^verbatim>\<open>undefined\<close>.
\<close>

type_synonym opaque = string

record token_usage =
  inputTokens :: int
  outputTokens :: int

record tool_call =
  call_id :: string
  call_name :: string
  call_input :: opaque

text \<open>
  A tool result as it is at run time. \<^verbatim>\<open>/v1/continue\<close> copies the three properties
  from each element of the request's array without looking at them, so each of them is
  any JSON value, or \<^const>\<open>None\<close> when the element does not have the property.
\<close>

datatype json =
    JNull
  | JBool bool
  | JNumber real
  | JString string
  | JArray "json list"
  | JObject "(string \<times> json) list"

record tool_result =
  toolUseId :: "json option"
  result_content :: "json option"
  isError :: "json option"

datatype content_block =
    TextBlock string
  | ToolResultBlock "json option" "json option" "json option"
  | OtherBlock opaque

record message =
  participant :: string
  blocks :: "content_block list"

record tool_definition =
  tool_name :: string
  tool_description :: string
  inputSchema :: opaque

record generation_config =
  g_model :: string
  g_maxTokens :: real
  g_temperature :: real
  g_thinking :: "opaque option"

record normalized_request =
  n_messages :: "message list"
  n_system :: "string option"
  n_tools :: "tool_definition list option"
  n_toolMode :: "string option"
  n_config :: generation_config
  n_stopSequences :: "string list option"
  n_promptCaching :: "bool option"
  n_cacheTtl :: "string option"
  n_maxParticipantsForStop :: "real option"
  n_providerParams :: "opaque option"

record membrane_options =
  formatter :: "opaque option"
  retry :: "opaque option"

subsection \<open>Sessions (\<^verbatim>\<open>src/sessions.ts\<close>)\<close>

record session_state =
  session_id :: string
  createdAt :: int
  expiresAt :: int
  provider :: string
  apiKey :: "string option"
  providerConfig :: "opaque option"
  membraneOptions :: "membrane_options option"
  request :: normalized_request
  rawAssistantText :: string
  contentBlocks :: "content_block list"
  toolCalls :: "tool_call list"
  executedToolResults :: "tool_result list"
  usage :: token_usage

type_synonym session_map = "(string \<times> session_state) list"

text \<open>The third argument of \<^verbatim>\<open>createSession\<close> (spread last into the new record).\<close>

record session_init =
  init_rawAssistantText :: string
  init_contentBlocks :: "content_block list"
  init_toolCalls :: "tool_call list"
  init_executedToolResults :: "tool_result list"
  init_usage :: token_usage

text \<open>The fourth argument of \<^verbatim>\<open>createSession\<close>; \<^verbatim>\<open>ttlMs\<close> defaults to five minutes.\<close>

record session_options =
  opt_apiKey :: "string option"
  opt_providerConfig :: "opaque option"
  opt_membraneOptions :: "membrane_options option"
  ttlMs :: "int option"

text \<open>
  The second argument of \<^verbatim>\<open>updateSession\<close>, a \<^verbatim>\<open>Partial<Pick<SessionState, ...>>\<close>:
  \<^const>\<open>None\<close> is a property that is not there, which \<^verbatim>\<open>Object.assign\<close> skips.
\<close>

record session_updates =
  upd_rawAssistantText :: "string option"
  upd_contentBlocks :: "content_block list option"
  upd_toolCalls :: "tool_call list option"
  upd_executedToolResults :: "tool_result list option"
  upd_usage :: "token_usage option"

definition default_ttl :: int where
  "default_ttl = 5 * 60 * 1000"

text \<open>
  \<^verbatim>\<open>createSession\<close>. The identifier \<^verbatim>\<open>generateSessionId()\<close> returns (built from the
  clock and \<^verbatim>\<open>Math.random\<close>) and the reading \<open>now\<close> of \<^verbatim>\<open>Date.now()\<close> are arguments.
\<close>

definition createSession ::
  "session_map \<Rightarrow> string \<Rightarrow> int \<Rightarrow> string \<Rightarrow> normalized_request \<Rightarrow> session_init \<Rightarrow>
   session_options \<Rightarrow> session_map \<times> session_state" where
  "createSession ss new_id now prov req state options =
     (let ttl = (case ttlMs options of None \<Rightarrow> default_ttl | Some t \<Rightarrow> t);
          session = \<lparr> session_id = new_id,
                      createdAt = now,
                      expiresAt = now + ttl,
                      provider = prov,
                      apiKey = opt_apiKey options,
                      providerConfig = opt_providerConfig options,
                      membraneOptions = opt_membraneOptions options,
                      request = req,
                      rawAssistantText = init_rawAssistantText state,
                      contentBlocks = init_contentBlocks state,
                      toolCalls = init_toolCalls state,
                      executedToolResults = init_executedToolResults state,
                      usage = init_usage state \<rparr>
      in (AList.update new_id session ss, session))"

text \<open>\<^verbatim>\<open>getSession\<close>: a miss, or a hit that has expired and is evicted, gives \<^verbatim>\<open>null\<close>.\<close>

definition getSession :: "session_map \<Rightarrow> int \<Rightarrow> string \<Rightarrow> session_map \<times> session_state option" where
  "getSession ss now i =
     (case map_of ss i of
        None \<Rightarrow> (ss, None)
      | Some session \<Rightarrow>
          if expiresAt session < now then (AList.delete i ss, None)
          else (ss, Some session))"

text \<open>\<^verbatim>\<open>Object.assign(session, updates)\<close>.\<close>

definition assign_updates :: "session_state \<Rightarrow> session_updates \<Rightarrow> session_state" where
  "assign_updates session u =
     session\<lparr> rawAssistantText :=
                 (case upd_rawAssistantText u of None \<Rightarrow> rawAssistantText session | Some v \<Rightarrow> v),
              contentBlocks :=
                 (case upd_contentBlocks u of None \<Rightarrow> contentBlocks session | Some v \<Rightarrow> v),
              toolCalls :=
                 (case upd_toolCalls u of None \<Rightarrow> toolCalls session | Some v \<Rightarrow> v),
              executedToolResults :=
                 (case upd_executedToolResults u of
                    None \<Rightarrow> executedToolResults session | Some v \<Rightarrow> v),
              usage := (case upd_usage u of None \<Rightarrow> usage session | Some v \<Rightarrow> v) \<rparr>"

text \<open>
  \<^verbatim>\<open>updateSession\<close> reads the clock twice: \<open>now\<close> inside \<^verbatim>\<open>getSession\<close> and
  \<open>now'\<close> for the new expiration. The session object is changed in place, so the
  entry of the map changes with it.
\<close>

definition updateSession ::
  "session_map \<Rightarrow> int \<Rightarrow> int \<Rightarrow> string \<Rightarrow> session_updates \<Rightarrow> session_map \<times> session_state option" where
  "updateSession ss now now' i updates =
     (case getSession ss now i of
        (ss', None) \<Rightarrow> (ss', None)
      | (ss', Some session) \<Rightarrow>
          (let session' = (assign_updates session updates)\<lparr> expiresAt := now' + 5 * 60 * 1000 \<rparr>
           in (AList.update i session' ss', Some session')))"

definition deleteSession :: "session_map \<Rightarrow> string \<Rightarrow> session_map" where
  "deleteSession ss i = AList.delete i ss"

definition getSessionCount :: "session_map \<Rightarrow> nat" where
  "getSessionCount ss = length ss"

text \<open>The callback of \<^verbatim>\<open>setInterval\<close>: every entry that has expired is removed.\<close>

definition sweep :: "session_map \<Rightarrow> int \<Rightarrow> session_map" where
  "sweep ss now = filter (\<lambda>(i, session). \<not> expiresAt session < now) ss"

section \<open>The server (\<^verbatim>\<open>src/server.ts\<close>)\<close>

subsection \<open>Requests and responses\<close>

text \<open>The fields of \<^verbatim>\<open>Config\<close> that the handlers read.\<close>

record config =
  defaultProvider :: string
  defaultModel :: string
  maxTokensLimit :: real
  requestTimeoutMs :: int

datatype message_content = Plain string | Structured "content_block list"

record api_message =
  m_participant :: string
  m_content :: message_content

record continue_from =
  cf_sessionId :: string
  cf_toolResults :: "tool_result list"

text \<open>A body that \<^verbatim>\<open>CompletionRequestSchema\<close> has accepted.\<close>

record completion_request =
  req_messages :: "api_message list"
  req_model :: "string option"
  req_provider :: "string option"
  req_maxTokens :: "real option"
  req_temperature :: "real option"
  req_system :: "string option"
  req_tools :: "tool_definition list option"
  req_toolMode :: "string option"
  req_thinking :: "opaque option"
  req_stopSequences :: "string list option"
  req_promptCaching :: "bool option"
  req_cacheTtl :: "string option"
  req_maxParticipantsForStop :: "real option"
  req_continueFrom :: "continue_from option"
  req_providerParams :: "opaque option"
  req_apiKey :: "string option"
  req_providerConfig :: "opaque option"
  req_formatter :: "opaque option"
  req_retry :: "opaque option"

datatype 'a parse_result = ParseFailure opaque | ParseSuccess 'a

text \<open>
  What the collaborator returns: a \<^verbatim>\<open>NormalizedResponse\<close> (\<open>r_model_actual\<close> is
  \<^verbatim>\<open>details.model.actual\<close>) or an \<^verbatim>\<open>AbortedResponse\<close>, told apart by
  \<^verbatim>\<open>isAbortedResponse\<close>.
\<close>

record normalized_response =
  r_content :: "content_block list"
  r_rawAssistantText :: string
  r_toolCalls :: "tool_call list"
  r_toolResults :: "tool_result list"
  r_stopReason :: string
  r_usage :: token_usage
  r_model_actual :: string

record aborted_response =
  a_partialContent :: "content_block list option"
  a_rawAssistantText :: "string option"
  a_toolCalls :: "tool_call list option"
  a_partialUsage :: "token_usage option"

record completion_response =
  out_content :: "content_block list"
  out_rawAssistantText :: string
  out_toolCalls :: "tool_call list"
  out_toolResults :: "tool_result list"
  out_stopReason :: string
  out_usage :: token_usage
  out_model :: string
  out_provider :: string
  out_durationMs :: int
  out_requiresToolResults :: "bool option"
  out_context :: "(opaque \<times> opaque) option"

record error_info =
  code :: string
  message_text :: string
  retryable :: bool

text \<open>
  A thrown value as \<^verbatim>\<open>parseError\<close> sees it: an \<^verbatim>\<open>Error\<close> with a \<^verbatim>\<open>code\<close>
  property (\<^const>\<open>None\<close> when the code is not a string), an \<^verbatim>\<open>Error\<close> without
  one, or a value that is no \<^verbatim>\<open>Error\<close> (given by its \<^verbatim>\<open>String(error)\<close>).
\<close>

datatype thrown =
    ErrorWithCode "string option" string
  | PlainError string
  | NotAnError string

fun parseError :: "thrown \<Rightarrow> error_info" where
  "parseError (ErrorWithCode c msg) =
     \<lparr> code = (case c of Some s \<Rightarrow> s | None \<Rightarrow> ''unknown_error''),
       message_text = msg,
       retryable = (case c of Some s \<Rightarrow> s \<in> set [''rate_limit'', ''overloaded'', ''timeout'']
                            | None \<Rightarrow> False) \<rparr>"
| "parseError (PlainError msg) =
     \<lparr> code = ''internal_error'', message_text = msg, retryable = False \<rparr>"
| "parseError (NotAnError s) =
     \<lparr> code = ''unknown_error'', message_text = s, retryable = False \<rparr>"

definition buildNormalizedRequest :: "completion_request \<Rightarrow> config \<Rightarrow> normalized_request" where
  "buildNormalizedRequest req config =
     (let messages =
            map (\<lambda>m. \<lparr> participant = m_participant m,
                       blocks = (case m_content m of
                                   Plain t \<Rightarrow> [TextBlock t]
                                 | Structured bs \<Rightarrow> bs) \<rparr>) (req_messages req);
          tools =
            map_option (map (\<lambda>t. \<lparr> tool_name = tool_name t,
                                    tool_description = tool_description t,
                                    inputSchema = inputSchema t \<rparr>)) (req_tools req)
      in \<lparr> n_messages = messages,
           n_system = req_system req,
           n_tools = tools,
           n_toolMode = req_toolMode req,
           n_config =
             \<lparr> g_model = (case req_model req of None \<Rightarrow> defaultModel config | Some m \<Rightarrow> m),
               g_maxTokens =
                 min (case req_maxTokens req of None \<Rightarrow> 4096 | Some m \<Rightarrow> m)
                     (maxTokensLimit config),
               g_temperature = (case req_temperature req of None \<Rightarrow> 1.0 | Some t \<Rightarrow> t),
               g_thinking = req_thinking req \<rparr>,
           n_stopSequences = req_stopSequences req,
           n_promptCaching = req_promptCaching req,
           n_cacheTtl = req_cacheTtl req,
           n_maxParticipantsForStop = req_maxParticipantsForStop req,
           n_providerParams = req_providerParams req \<rparr>)"

definition buildCompletionResponse ::
  "normalized_response \<Rightarrow> string \<Rightarrow> int \<Rightarrow> completion_response" where
  "buildCompletionResponse response prov duration =
     \<lparr> out_content = r_content response,
       out_rawAssistantText = r_rawAssistantText response,
       out_toolCalls = r_toolCalls response,
       out_toolResults =
         map (\<lambda>r. \<lparr> toolUseId = toolUseId r,
                    result_content = result_content r,
                    isError = isError r \<rparr>) (r_toolResults response),
       out_stopReason = r_stopReason response,
       out_usage = r_usage response,
       out_model = r_model_actual response,
       out_provider = prov,
       out_durationMs = duration,
       out_requiresToolResults =
         Some (length (r_toolCalls response) > 0 \<and> r_stopReason response = ''tool_use''),
       out_context = None \<rparr>"

text \<open>
  The payload of the \<^verbatim>\<open>done\<close> event that the three streaming handlers build for an
  aborted response; \<open>ctx\<close> is only given by the context handler.
\<close>

definition abortedCompletion ::
  "aborted_response \<Rightarrow> string \<Rightarrow> string \<Rightarrow> int \<Rightarrow> (opaque \<times> opaque) option \<Rightarrow>
   completion_response" where
  "abortedCompletion ab model prov duration ctx =
     \<lparr> out_content = (case a_partialContent ab of None \<Rightarrow> [] | Some c \<Rightarrow> c),
       out_rawAssistantText = (case a_rawAssistantText ab of None \<Rightarrow> [] | Some t \<Rightarrow> t),
       out_toolCalls = (case a_toolCalls ab of None \<Rightarrow> [] | Some c \<Rightarrow> c),
       out_toolResults = [],
       out_stopReason = ''end_turn'',
       out_usage = (case a_partialUsage ab of
                      None \<Rightarrow> \<lparr> inputTokens = 0, outputTokens = 0 \<rparr> | Some u \<Rightarrow> u),
       out_model = model,
       out_provider = prov,
       out_durationMs = duration,
       out_requiresToolResults = None,
       out_context = ctx \<rparr>"

text \<open>
  A body that \<^verbatim>\<open>ContextRequestSchema\<close> has accepted and the \<^verbatim>\<open>ContextInput\<close> built
  from it; the rolling, limit and cache settings and the context state pass through.
\<close>

record context_request =
  ctx_messages :: "api_message list"
  ctx_model :: "string option"
  ctx_provider :: "string option"
  ctx_maxTokens :: "real option"
  ctx_temperature :: "real option"
  ctx_system :: "string option"
  ctx_tools :: "tool_definition list option"
  ctx_thinking :: "opaque option"
  ctx_apiKey :: "string option"
  ctx_providerConfig :: "opaque option"
  ctx_formatter :: "opaque option"
  ctx_retry :: "opaque option"
  ctx_contextConfig :: opaque
  ctx_contextState :: "opaque option"

record context_input =
  ci_messages :: "message list"
  ci_system :: "string option"
  ci_tools :: "tool_definition list option"
  ci_config :: generation_config
  ci_context :: opaque

text \<open>
  The body of \<^verbatim>\<open>/v1/continue\<close> is not validated by a schema: the handler casts
  \<^verbatim>\<open>request.body\<close> and reads its properties. \<^verbatim>\<open>sessionId\<close> is missing (or another
  falsy value that is no string), a string, or a truthy value that is no string.
  \<^verbatim>\<open>toolResults\<close> is an array or not; an element of the array is \<^verbatim>\<open>null\<close>
  (\<^const>\<open>None\<close>) or any other value, which is given by the three properties that the
  handler reads from it (a number or a string has none of them). The body itself is
  \<^verbatim>\<open>null\<close> or \<^verbatim>\<open>undefined\<close>, an object with these two properties, or another JSON
  value, which has neither.
\<close>

datatype id_field = IdMissing | IdString string | IdOtherTruthy

datatype results_field = NotAnArray | ResultArray "tool_result option list"

record continue_body =
  body_sessionId :: id_field
  body_toolResults :: results_field

datatype request_body = NullBody | OtherBody | ObjectBody continue_body

subsection \<open>Events, effects and the shared state\<close>

text \<open>The payload of each Server-Sent Event that \<^verbatim>\<open>sendEvent\<close> writes.\<close>

datatype stream_event =
    StreamStart string
  | Chunk string string bool int
  | BlockStart int string
  | BlockComplete int string "opaque option"
  | PreToolContent string
  | ToolCalls "tool_call list" string
  | UsageEvent token_usage
  | Done completion_response
  | ErrorEvent error_info

datatype reply_body =
    ErrorBody error_info "opaque option"
  | CompletionBody completion_response
  | AbortedBody string
  | StatsBody nat nat
  | NoBody

text \<open>
  Everything a handler does besides changing the two maps, in the order in which it
  does it: what it writes to the client, what it asks of the collaborator, and each
  \<^verbatim>\<open>set\<close> and \<^verbatim>\<open>delete\<close> on \<^verbatim>\<open>activeStreams\<close>. An \<^verbatim>\<open>AbortController\<close> is an object;
  it is named by the number of its allocation. \<open>Rejects\<close> is an exception that leaves
  the handler: no statement of the handler catches it, and the reply is the web
  framework's.
\<close>

datatype effect =
    RegistrySet string nat
  | RegistryDelete string
  | AbortSignal nat
  | WriteHead nat
  | SendEvent stream_event
  | EndReply
  | MembraneComplete normalized_request
  | MembraneStream normalized_request nat
  | ProcessContext context_input "opaque option" nat
  | ProviderHealth string bool
  | ReplySend nat reply_body
  | Rejects thrown

text \<open>
  The terminal events of a round, in the order in which they are sent: the
  \<^verbatim>\<open>tool_calls\<close> and \<^verbatim>\<open>done\<close> events among the effects of a handler.
\<close>

fun is_tool_calls :: "effect \<Rightarrow> bool" where
  "is_tool_calls (SendEvent (ToolCalls calls sessionId)) = True"
| "is_tool_calls _ = False"

fun is_done :: "effect \<Rightarrow> bool" where
  "is_done (SendEvent (Done response)) = True"
| "is_done _ = False"

definition terminal_events :: "effect list \<Rightarrow> effect list" where
  "terminal_events effects = filter (\<lambda>e. is_tool_calls e \<or> is_done e) effects"

record server_state =
  sessions :: session_map
  activeStreams :: "(string \<times> nat) list"
  aborted :: "nat \<Rightarrow> bool"
  nextController :: nat

text \<open>\<^verbatim>\<open>new AbortController()\<close>: a new object whose signal is not aborted.\<close>

definition newAbortController :: "server_state \<Rightarrow> server_state \<times> nat" where
  "newAbortController st =
     (st\<lparr> aborted := (aborted st)(nextController st := False),
          nextController := Suc (nextController st) \<rparr>,
      nextController st)"

text \<open>\<^verbatim>\<open>activeStreams.set(streamId, abortController)\<close>.\<close>

definition activeStreams_set :: "server_state \<Rightarrow> string \<Rightarrow> nat \<Rightarrow> server_state" where
  "activeStreams_set st streamId ctl =
     st\<lparr> activeStreams := AList.update streamId ctl (activeStreams st) \<rparr>"

definition cleanupStream :: "server_state \<Rightarrow> string \<Rightarrow> server_state" where
  "cleanupStream st streamId =
     st\<lparr> activeStreams := AList.delete streamId (activeStreams st) \<rparr>"

subsection \<open>The collaborator and the clock\<close>

text \<open>
  What the callbacks of \<^verbatim>\<open>membrane.stream\<close> receive. A block event carries its
  \<^verbatim>\<open>event\<close> name, its index, the type of its block and the block's content, if any.
\<close>

record chunk_meta =
  meta_type :: "string option"
  meta_visible :: "bool option"
  meta_blockIndex :: "int option"

record block_event =
  be_event :: string
  be_index :: int
  be_type :: string
  be_content :: "opaque option"

datatype callback =
    OnChunk string chunk_meta
  | OnBlock block_event
  | OnPreToolContent string
  | OnUsage token_usage

datatype stream_result =
    Returned normalized_response
  | Aborted aborted_response
  | Threw thrown

text \<open>
  A handler runs against an environment that fixes what is outside the server: the
  identifiers \<^verbatim>\<open>generateStreamId\<close> and \<^verbatim>\<open>generateSessionId\<close> return, whether
  \<^verbatim>\<open>createMembrane\<close> throws (it does when no credential is available), the callbacks
  the collaborator makes during the call and how the call ends, the context state and
  information \<^verbatim>\<open>processContext\<close> returns, and what each \<^verbatim>\<open>Date.now()\<close> reads:
  \<open>now_get\<close> in the handler's \<^verbatim>\<open>getSession\<close>, \<open>now_start\<close> for \<^verbatim>\<open>startMs\<close>,
  \<open>now_create\<close> in \<^verbatim>\<open>createSession\<close>, \<open>now_update\<close> and \<open>now_expiry\<close> in
  \<^verbatim>\<open>updateSession\<close>, \<open>now_done\<close> for the duration.

  A handler is followed from its first statement to its last: what other requests do
  to the two maps while it awaits the collaborator is not part of this model, and the
  writes to the client are taken not to throw.
\<close>

record env =
  gen_streamId :: string
  gen_sessionId :: string
  createMembrane_throws :: "thrown option"
  callbacks :: "callback list"
  result :: stream_result
  context_state :: opaque
  context_info :: opaque
  now_get :: int
  now_start :: int
  now_create :: int
  now_update :: int
  now_expiry :: int
  now_done :: int

text \<open>
  The callbacks of \<^verbatim>\<open>/v1/stream\<close> and \<^verbatim>\<open>/v1/continue\<close> forward each call as one
  event. (\<^verbatim>\<open>/v1/stream\<close> also accumulates the chunks and the usage in two local
  variables that nothing reads afterwards.)
\<close>

fun forward_callback :: "callback \<Rightarrow> stream_event list" where
  "forward_callback (OnChunk chunk meta) =
     [Chunk chunk
        (case meta_type meta of None \<Rightarrow> ''text'' | Some t \<Rightarrow> t)
        (case meta_visible meta of None \<Rightarrow> True | Some v \<Rightarrow> v)
        (case meta_blockIndex meta of None \<Rightarrow> 0 | Some i \<Rightarrow> i)]"
| "forward_callback (OnBlock b) =
     (if be_event b = ''block_start'' then [BlockStart (be_index b) (be_type b)]
      else if be_event b = ''block_complete''
        then [BlockComplete (be_index b) (be_type b) (be_content b)]
      else [])"
| "forward_callback (OnPreToolContent content) = [PreToolContent content]"
| "forward_callback (OnUsage u) = [UsageEvent u]"

text \<open>\<^verbatim>\<open>/v1/context/stream\<close> passes no \<^verbatim>\<open>onBlock\<close> and ignores the chunk's metadata.\<close>

fun forward_context_callback :: "callback \<Rightarrow> stream_event list" where
  "forward_context_callback (OnChunk chunk meta) = [Chunk chunk ''text'' True 0]"
| "forward_context_callback (OnBlock b) = []"
| "forward_context_callback (OnPreToolContent content) = [PreToolContent content]"
| "forward_context_callback (OnUsage u) = [UsageEvent u]"

definition sent :: "(callback \<Rightarrow> stream_event list) \<Rightarrow> callback list \<Rightarrow> effect list" where
  "sent forward cbs = map SendEvent (concat (map forward cbs))"

definition invalid_body :: "opaque \<Rightarrow> effect" where
  "invalid_body issues =
     ReplySend 400
       (ErrorBody \<lparr> code = ''invalid_request'', message_text = ''Invalid request body'',
                    retryable = False \<rparr> (Some issues))"

text \<open>The \<^verbatim>\<open>catch\<close> block of the streaming handlers.\<close>

definition catch_block :: "string \<Rightarrow> thrown option \<Rightarrow> effect list" where
  "catch_block prov exc =
     (case exc of
        None \<Rightarrow> []
      | Some e \<Rightarrow> [ProviderHealth prov False, SendEvent (ErrorEvent (parseError e))])"

subsection \<open>\<^verbatim>\<open>POST /v1/complete\<close>\<close>

definition handleError :: "thrown \<Rightarrow> effect" where
  "handleError e =
     (let errorInfo = parseError e;
          statusCode =
            (if code errorInfo = ''rate_limit'' then 429
             else if code errorInfo = ''unauthorized'' then 401
             else if code errorInfo = ''invalid_request'' then 400
             else if code errorInfo = ''not_found'' then 404
             else 500)
      in ReplySend statusCode (ErrorBody errorInfo None))"

text \<open>\<open>outcome\<close> is how \<^verbatim>\<open>membrane.complete\<close> ends: it throws or returns a response.\<close>

definition complete_handler ::
  "config \<Rightarrow> server_state \<Rightarrow> env \<Rightarrow> thrown + normalized_response \<Rightarrow>
   completion_request parse_result \<Rightarrow> server_state \<times> effect list" where
  "complete_handler config st env outcome body =
     (case body of
        ParseFailure issues \<Rightarrow> (st, [invalid_body issues])
      | ParseSuccess req \<Rightarrow>
          (let prov = (case req_provider req of None \<Rightarrow> defaultProvider config | Some p \<Rightarrow> p)
           in case createMembrane_throws env of
                Some e \<Rightarrow> (st, [ProviderHealth prov False, handleError e])
              | None \<Rightarrow>
                  (let normalizedRequest = buildNormalizedRequest req config
                   in case outcome of
                        Inl e \<Rightarrow>
                          (st, [MembraneComplete normalizedRequest,
                                ProviderHealth prov False, handleError e])
                      | Inr response \<Rightarrow>
                          (st, [MembraneComplete normalizedRequest,
                                ProviderHealth prov True,
                                ReplySend 200
                                  (CompletionBody
                                     (buildCompletionResponse response prov
                                        (now_done env - now_start env)))]))))"

subsection \<open>\<^verbatim>\<open>POST /v1/stream\<close>\<close>

definition use_continue_endpoint :: error_info where
  "use_continue_endpoint =
     \<lparr> code = ''use_continue_endpoint'',
       message_text =
         ''To continue with tool results, use POST /v1/continue with sessionId and toolResults'',
       retryable = False \<rparr>"

text \<open>
  The \<^verbatim>\<open>try\<close> block. It gives the state and the effects up to the point where it ends,
  and the value that it throws, if it throws.
\<close>

definition stream_try ::
  "config \<Rightarrow> server_state \<Rightarrow> env \<Rightarrow> completion_request \<Rightarrow> string \<Rightarrow> string \<Rightarrow> nat \<Rightarrow>
   (server_state \<times> effect list) \<times> thrown option" where
  "stream_try config st env req prov streamId ctl =
     (case createMembrane_throws env of
        Some e \<Rightarrow> ((st, []), Some e)
      | None \<Rightarrow>
          (let normalizedRequest = buildNormalizedRequest req config
           in if req_continueFrom req \<noteq> None then
                ((cleanupStream st streamId,
                  [SendEvent (ErrorEvent use_continue_endpoint), EndReply,
                   RegistryDelete streamId]), None)
              else
                (let called = MembraneStream normalizedRequest ctl
                                # sent forward_callback (callbacks env);
                     duration = now_done env - now_start env
                 in case result env of
                      Threw e \<Rightarrow> ((st, called), Some e)
                    | Returned r \<Rightarrow>
                        if length (r_toolCalls r) > 0 \<and> r_stopReason r = ''tool_use'' then
                          (case createSession (sessions st) (gen_sessionId env)
                                  (now_create env) prov normalizedRequest
                                  \<lparr> init_rawAssistantText = r_rawAssistantText r,
                                    init_contentBlocks = r_content r,
                                    init_toolCalls = r_toolCalls r,
                                    init_executedToolResults = [],
                                    init_usage = r_usage r \<rparr>
                                  \<lparr> opt_apiKey = req_apiKey req,
                                    opt_providerConfig = req_providerConfig req,
                                    opt_membraneOptions =
                                      Some \<lparr> formatter = req_formatter req,
                                             retry = req_retry req \<rparr>,
                                    ttlMs = None \<rparr> of
                             (ss, session) \<Rightarrow>
                               ((st\<lparr> sessions := ss \<rparr>,
                                 called @
                                 [ProviderHealth prov True,
                                  SendEvent (ToolCalls (r_toolCalls r) (session_id session)),
                                  SendEvent (Done (buildCompletionResponse r prov duration))]),
                                None))
                        else
                          ((st, called @
                                [ProviderHealth prov True,
                                 SendEvent (Done (buildCompletionResponse r prov duration))]),
                           None)
                    | Aborted ab \<Rightarrow>
                        ((st, called @
                              [ProviderHealth prov True,
                               SendEvent
                                 (Done (abortedCompletion ab
                                          (case req_model req of
                                             None \<Rightarrow> defaultModel config | Some m \<Rightarrow> m)
                                          prov duration None))]),
                         None))))"

text \<open>
  The handler: the stream is registered and \<^verbatim>\<open>stream_start\<close> is sent before the
  \<^verbatim>\<open>try\<close>; the \<^verbatim>\<open>finally\<close> block runs after it on every path, also after the
  \<^verbatim>\<open>return\<close> of the \<^verbatim>\<open>continueFrom\<close> branch.
\<close>

definition stream_handler ::
  "config \<Rightarrow> server_state \<Rightarrow> env \<Rightarrow> completion_request parse_result \<Rightarrow>
   server_state \<times> effect list" where
  "stream_handler config st env body =
     (case body of
        ParseFailure issues \<Rightarrow> (st, [invalid_body issues])
      | ParseSuccess req \<Rightarrow>
          (let prov = (case req_provider req of None \<Rightarrow> defaultProvider config | Some p \<Rightarrow> p);
               streamId = gen_streamId env
           in case newAbortController st of
                (st0, ctl) \<Rightarrow>
                  (let st1 = activeStreams_set st0 streamId ctl
                   in case stream_try config st1 env req prov streamId ctl of
                        ((st2, effects), exc) \<Rightarrow>
                          (cleanupStream st2 streamId,
                           [RegistrySet streamId ctl, WriteHead 200,
                            SendEvent (StreamStart streamId)]
                           @ effects @ catch_block prov exc
                           @ [RegistryDelete streamId, EndReply]))))"

subsection \<open>\<^verbatim>\<open>POST /v1/continue\<close>\<close>

fun truthy :: "id_field \<Rightarrow> bool" where
  "truthy IdMissing = False"
| "truthy (IdString s) = (s \<noteq> [])"
| "truthy IdOtherTruthy = True"

fun isArray :: "results_field \<Rightarrow> bool" where
  "isArray NotAnArray = False"
| "isArray (ResultArray rs) = True"

fun id_string :: "id_field \<Rightarrow> string" where
  "id_string (IdString s) = s"
| "id_string _ = []"

fun array_elements :: "results_field \<Rightarrow> tool_result option list" where
  "array_elements (ResultArray rs) = rs"
| "array_elements NotAnArray = []"

text \<open>
  Reading a property of \<^verbatim>\<open>null\<close> or \<^verbatim>\<open>undefined\<close> throws a \<^verbatim>\<open>TypeError\<close>, an
  \<^verbatim>\<open>Error\<close> without a \<^verbatim>\<open>code\<close>; the text of its message is the engine's.
\<close>

definition null_property_read :: thrown where
  "null_property_read = PlainError ''Cannot read properties of null''"

text \<open>
  \<^verbatim>\<open>body.toolResults.map(r => ({toolUseId: r.toolUseId, content: r.content, isError:
  r.isError}))\<close>: the copy stops with the \<^verbatim>\<open>TypeError\<close> at the first element that is
  \<^verbatim>\<open>null\<close>.
\<close>

fun copy_toolResults :: "tool_result option list \<Rightarrow> thrown + tool_result list" where
  "copy_toolResults [] = Inr []"
| "copy_toolResults (None # rs) = Inl null_property_read"
| "copy_toolResults (Some r # rs) =
     (case copy_toolResults rs of
        Inl e \<Rightarrow> Inl e
      | Inr copied \<Rightarrow>
          Inr (\<lparr> toolUseId = toolUseId r, result_content = result_content r,
                 isError = isError r \<rparr> # copied))"

definition invalid_continue_request :: error_info where
  "invalid_continue_request =
     \<lparr> code = ''invalid_request'',
       message_text = ''sessionId and toolResults are required'',
       retryable = False \<rparr>"

definition session_not_found :: error_info where
  "session_not_found =
     \<lparr> code = ''session_not_found'',
       message_text = ''Session not found or expired'',
       retryable = False \<rparr>"

text \<open>The keys of \<^verbatim>\<open>sessions\<close> are strings: a key that is no string is never found.\<close>

fun getSession_field :: "session_map \<Rightarrow> int \<Rightarrow> id_field \<Rightarrow> session_map \<times> session_state option" where
  "getSession_field ss now (IdString s) = getSession ss now s"
| "getSession_field ss now _ = (ss, None)"

text \<open>
  The object that the handler passes to \<^verbatim>\<open>updateSession\<close> when the round stops for
  tools again; \<^verbatim>\<open>executedToolResults\<close> is not among its properties.
\<close>

definition merged_updates :: "session_state \<Rightarrow> normalized_response \<Rightarrow> session_updates" where
  "merged_updates session r =
     \<lparr> upd_rawAssistantText = Some (rawAssistantText session @ r_rawAssistantText r),
       upd_contentBlocks = Some (r_content r),
       upd_toolCalls = Some (r_toolCalls r),
       upd_executedToolResults = None,
       upd_usage =
         Some \<lparr> inputTokens = inputTokens (usage session) + inputTokens (r_usage r),
                outputTokens = outputTokens (usage session) + outputTokens (r_usage r) \<rparr> \<rparr>"

text \<open>
  The \<^verbatim>\<open>try\<close> block. \<open>session\<close> is the object \<^verbatim>\<open>getSession\<close> returned, which is
  the entry of the map: \<^verbatim>\<open>session.executedToolResults.push(...)\<close> changes that entry.
  The elements of \<^verbatim>\<open>toolResults\<close> are copied before that, after \<^verbatim>\<open>createMembrane\<close>.
\<close>

definition continue_try ::
  "server_state \<Rightarrow> env \<Rightarrow> string \<Rightarrow> session_state \<Rightarrow> tool_result option list \<Rightarrow> nat \<Rightarrow>
   (server_state \<times> effect list) \<times> thrown option" where
  "continue_try st env sessionId session elements ctl =
     (case createMembrane_throws env of
        Some e \<Rightarrow> ((st, []), Some e)
      | None \<Rightarrow>
        (case copy_toolResults elements of
           Inl e \<Rightarrow> ((st, []), Some e)
         | Inr toolResults \<Rightarrow>
          (let session1 = session\<lparr> executedToolResults :=
                                      executedToolResults session @ toolResults \<rparr>;
               st1 = st\<lparr> sessions := AList.update sessionId session1 (sessions st) \<rparr>;
               messages =
                 n_messages (request session1)
                 @ [\<lparr> participant = ''Claude'', blocks = contentBlocks session1 \<rparr>,
                    \<lparr> participant = ''User'',
                      blocks = map (\<lambda>r. ToolResultBlock (toolUseId r) (result_content r)
                                            (isError r)) toolResults \<rparr>];
               continuedRequest = (request session1)\<lparr> n_messages := messages \<rparr>;
               called = MembraneStream continuedRequest ctl
                          # sent forward_callback (callbacks env);
               prov = provider session1;
               duration = now_done env - now_start env
           in case result env of
                Threw e \<Rightarrow> ((st1, called), Some e)
              | Returned r \<Rightarrow>
                  if length (r_toolCalls r) > 0 \<and> r_stopReason r = ''tool_use'' then
                    (case updateSession (sessions st1) (now_update env) (now_expiry env)
                            sessionId (merged_updates session1 r) of
                       (ss, updated) \<Rightarrow>
                         ((st1\<lparr> sessions := ss \<rparr>,
                           called @
                           [ProviderHealth prov True,
                            SendEvent (ToolCalls (r_toolCalls r) sessionId),
                            SendEvent (Done (buildCompletionResponse r prov duration))]),
                          None))
                  else
                    ((st1\<lparr> sessions := deleteSession (sessions st1) sessionId \<rparr>,
                      called @
                      [ProviderHealth prov True,
                       SendEvent (Done (buildCompletionResponse r prov duration))]),
                     None)
              | Aborted ab \<Rightarrow>
                  ((st1\<lparr> sessions := deleteSession (sessions st1) sessionId \<rparr>,
                    called @
                    [ProviderHealth prov True,
                     SendEvent
                       (Done (abortedCompletion ab (g_model (n_config (request session1)))
                                prov duration None))]),
                   None))))"

definition continue_handler ::
  "server_state \<Rightarrow> env \<Rightarrow> continue_body \<Rightarrow> server_state \<times> effect list" where
  "continue_handler st env body =
     (if \<not> truthy (body_sessionId body) \<or> \<not> isArray (body_toolResults body) then
        (st, [ReplySend 400 (ErrorBody invalid_continue_request None)])
      else
        (case getSession_field (sessions st) (now_get env) (body_sessionId body) of
           (ss, None) \<Rightarrow>
             (st\<lparr> sessions := ss \<rparr>, [ReplySend 404 (ErrorBody session_not_found None)])
         | (ss, Some session) \<Rightarrow>
             (let sessionId = id_string (body_sessionId body);
                  streamId = gen_streamId env
              in case newAbortController (st\<lparr> sessions := ss \<rparr>) of
                   (st0, ctl) \<Rightarrow>
                     (let st1 = activeStreams_set st0 streamId ctl
                      in case continue_try st1 env sessionId session
                                (array_elements (body_toolResults body)) ctl of
                           ((st2, effects), exc) \<Rightarrow>
                             (cleanupStream st2 streamId,
                              [RegistrySet streamId ctl, WriteHead 200,
                               SendEvent (StreamStart streamId)]
                              @ effects @ catch_block (provider session) exc
                              @ [RegistryDelete streamId, EndReply])))))"

text \<open>
  The handler on any body. Its first statement that looks at the body is
  \<^verbatim>\<open>!body.sessionId\<close>, before the \<^verbatim>\<open>try\<close> block: on \<^verbatim>\<open>null\<close> or \<^verbatim>\<open>undefined\<close>
  that read throws and the exception leaves the handler; on a value that is no object
  \<^verbatim>\<open>sessionId\<close> and \<^verbatim>\<open>toolResults\<close> both read as \<^verbatim>\<open>undefined\<close>.
\<close>

definition continue_endpoint ::
  "server_state \<Rightarrow> env \<Rightarrow> request_body \<Rightarrow> server_state \<times> effect list" where
  "continue_endpoint st env raw =
     (case raw of
        NullBody \<Rightarrow> (st, [Rejects null_property_read])
      | OtherBody \<Rightarrow>
          continue_handler st env
            \<lparr> body_sessionId = IdMissing, body_toolResults = NotAnArray \<rparr>
      | ObjectBody body \<Rightarrow> continue_handler st env body)"

subsection \<open>Sessions, aborts and statistics\<close>

definition delete_session_handler :: "server_state \<Rightarrow> string \<Rightarrow> server_state \<times> effect list" where
  "delete_session_handler st sessionId =
     (st\<lparr> sessions := deleteSession (sessions st) sessionId \<rparr>, [ReplySend 204 NoBody])"

definition stream_not_found :: error_info where
  "stream_not_found =
     \<lparr> code = ''stream_not_found'',
       message_text = ''Stream not found or already completed'',
       retryable = False \<rparr>"

text \<open>
  \<^verbatim>\<open>POST /v1/abort/:streamId\<close>: \<^verbatim>\<open>controller.abort()\<close> sets the signal of the stored
  controller, then the entry is removed.
\<close>

definition abort_handler :: "server_state \<Rightarrow> string \<Rightarrow> server_state \<times> effect list" where
  "abort_handler st streamId =
     (case map_of (activeStreams st) streamId of
        None \<Rightarrow>
          (st, [ReplySend 404 (ErrorBody stream_not_found None)])
      | Some controller \<Rightarrow>
          (cleanupStream (st\<lparr> aborted := (aborted st)(controller := True) \<rparr>) streamId,
           [AbortSignal controller, RegistryDelete streamId,
            ReplySend 200 (AbortedBody streamId)]))"

text \<open>\<^verbatim>\<open>GET /v1/stats\<close>, without the uptime and the list of providers.\<close>

definition stats_handler :: "server_state \<Rightarrow> server_state \<times> effect list" where
  "stats_handler st =
     (st, [ReplySend 200 (StatsBody (getSessionCount (sessions st)) (length (activeStreams st)))])"

subsection \<open>\<^verbatim>\<open>POST /v1/context/stream\<close>\<close>

definition context_try ::
  "config \<Rightarrow> server_state \<Rightarrow> env \<Rightarrow> context_request \<Rightarrow> string \<Rightarrow> nat \<Rightarrow>
   (server_state \<times> effect list) \<times> thrown option" where
  "context_try config st env req prov ctl =
     (case createMembrane_throws env of
        Some e \<Rightarrow> ((st, []), Some e)
      | None \<Rightarrow>
          (let model = (case ctx_model req of None \<Rightarrow> defaultModel config | Some m \<Rightarrow> m);
               contextInput =
                 \<lparr> ci_messages =
                     map (\<lambda>m. \<lparr> participant = m_participant m,
                                blocks = (case m_content m of
                                            Plain t \<Rightarrow> [TextBlock t]
                                          | Structured bs \<Rightarrow> bs) \<rparr>) (ctx_messages req),
                   ci_system = ctx_system req,
                   ci_tools =
                     map_option (map (\<lambda>t. \<lparr> tool_name = tool_name t,
                                             tool_description = tool_description t,
                                             inputSchema = inputSchema t \<rparr>)) (ctx_tools req),
                   ci_config =
                     \<lparr> g_model = model,
                       g_maxTokens =
                         min (case ctx_maxTokens req of None \<Rightarrow> 4096 | Some m \<Rightarrow> m)
                             (maxTokensLimit config),
                       g_temperature =
                         (case ctx_temperature req of None \<Rightarrow> 1.0 | Some t \<Rightarrow> t),
                       g_thinking = ctx_thinking req \<rparr>,
                   ci_context = ctx_contextConfig req \<rparr>;
               called = ProcessContext contextInput (ctx_contextState req) ctl
                          # sent forward_context_callback (callbacks env);
               duration = now_done env - now_start env;
               ctx = Some (context_state env, context_info env)
           in case result env of
                Threw e \<Rightarrow> ((st, called), Some e)
              | Returned r \<Rightarrow>
                  ((st, called @
                        [ProviderHealth prov True,
                         SendEvent (Done ((buildCompletionResponse r prov duration)
                                            \<lparr> out_context := ctx \<rparr>))]),
                   None)
              | Aborted ab \<Rightarrow>
                  ((st, called @
                        [ProviderHealth prov True,
                         SendEvent (Done (abortedCompletion ab model prov duration ctx))]),
                   None)))"

definition context_stream_handler ::
  "config \<Rightarrow> server_state \<Rightarrow> env \<Rightarrow> context_request parse_result \<Rightarrow>
   server_state \<times> effect list" where
  "context_stream_handler config st env body =
     (case body of
        ParseFailure issues \<Rightarrow> (st, [invalid_body issues])
      | ParseSuccess req \<Rightarrow>
          (let prov = (case ctx_provider req of None \<Rightarrow> defaultProvider config | Some p \<Rightarrow> p);
               streamId = gen_streamId env
           in case newAbortController st of
                (st0, ctl) \<Rightarrow>
                  (let st1 = activeStreams_set st0 streamId ctl
                   in case context_try config st1 env req prov ctl of
                        ((st2, effects), exc) \<Rightarrow>
                          (cleanupStream st2 streamId,
                           [RegistrySet streamId ctl, WriteHead 200,
                            SendEvent (StreamStart streamId)]
                           @ effects @ catch_block prov exc
                           @ [RegistryDelete streamId, EndReply]))))"

subsection \<open>Concrete inputs\<close>

text \<open>
  A server with the default limits, a request for a weather tool, a response that stops
  for one tool call with usage 3 in and 2 out, and a session suspended with usage 10 in
  and 5 out. The theorems below are instantiated with them.
\<close>

definition ex_config :: config where
  "ex_config =
     \<lparr> defaultProvider = ''anthropic'', defaultModel = ''claude-sonnet-4-20250514'',
       maxTokensLimit = 32000, requestTimeoutMs = 300000 \<rparr>"

definition ex_request :: completion_request where
  "ex_request =
     \<lparr> req_messages = [\<lparr> m_participant = ''User'', m_content = Plain ''Weather in Paris?'' \<rparr>],
       req_model = None, req_provider = None, req_maxTokens = Some 100000,
       req_temperature = None, req_system = None, req_tools = None, req_toolMode = None,
       req_thinking = None, req_stopSequences = None, req_promptCaching = None,
       req_cacheTtl = None, req_maxParticipantsForStop = None, req_continueFrom = None,
       req_providerParams = None, req_apiKey = None, req_providerConfig = None,
       req_formatter = None, req_retry = None \<rparr>"

definition ex_tool_result :: tool_result where
  "ex_tool_result =
     \<lparr> toolUseId = Some (JString ''call_1''), result_content = Some (JString ''sunny''),
       isError = None \<rparr>"

definition ex_continueFrom_request :: completion_request where
  "ex_continueFrom_request =
     ex_request\<lparr> req_continueFrom :=
                   Some \<lparr> cf_sessionId = ''sess_1'', cf_toolResults = [ex_tool_result] \<rparr> \<rparr>"

definition ex_call :: tool_call where
  "ex_call = \<lparr> call_id = ''call_1'', call_name = ''get_weather'', call_input = ''{}'' \<rparr>"

definition ex_response :: normalized_response where
  "ex_response =
     \<lparr> r_content = [OtherBlock ''tool_use''], r_rawAssistantText = ''Checking.'',
       r_toolCalls = [ex_call], r_toolResults = [], r_stopReason = ''tool_use'',
       r_usage = \<lparr> inputTokens = 3, outputTokens = 2 \<rparr>,
       r_model_actual = ''claude-sonnet-4-20250514'' \<rparr>"

definition ex_env :: env where
  "ex_env =
     \<lparr> gen_streamId = ''str_1'', gen_sessionId = ''sess_2'', createMembrane_throws = None,
       callbacks = [OnChunk ''Checking.''
                      \<lparr> meta_type = None, meta_visible = None, meta_blockIndex = None \<rparr>],
       result = Returned ex_response, context_state = ''{}'', context_info = ''{}'',
       now_get = 1000, now_start = 1000, now_create = 2000, now_update = 2000,
       now_expiry = 2000, now_done = 2000 \<rparr>"

definition ex_session :: session_state where
  "ex_session =
     \<lparr> session_id = ''sess_1'', createdAt = 0, expiresAt = 300000, provider = ''anthropic'',
       apiKey = None, providerConfig = None, membraneOptions = None,
       request = buildNormalizedRequest ex_request ex_config,
       rawAssistantText = ''Let me look. '', contentBlocks = [OtherBlock ''tool_use''],
       toolCalls = [ex_call], executedToolResults = [],
       usage = \<lparr> inputTokens = 10, outputTokens = 5 \<rparr> \<rparr>"

definition ex_state :: server_state where
  "ex_state =
     \<lparr> sessions = [], activeStreams = [], aborted = (\<lambda>c. False), nextController = 0 \<rparr>"

definition ex_suspended :: server_state where
  "ex_suspended = ex_state\<lparr> sessions := [(''sess_1'', ex_session)] \<rparr>"

definition ex_streaming :: server_state where
  "ex_streaming = ex_state\<lparr> activeStreams := [(''str_1'', 0)], nextController := 1 \<rparr>"

definition ex_continue_body :: continue_body where
  "ex_continue_body =
     \<lparr> body_sessionId = IdString ''sess_1'',
       body_toolResults = ResultArray [Some ex_tool_result] \<rparr>"

definition ex_context_request :: context_request where
  "ex_context_request =
     \<lparr> ctx_messages = [\<lparr> m_participant = ''User'', m_content = Plain ''Weather in Paris?'' \<rparr>],
       ctx_model = None, ctx_provider = None, ctx_maxTokens = None, ctx_temperature = None,
       ctx_system = None, ctx_tools = None, ctx_thinking = None, ctx_apiKey = None,
       ctx_providerConfig = None, ctx_formatter = None, ctx_retry = None,
       ctx_contextConfig = ''{}'', ctx_contextState = None \<rparr>"

definition ex_init :: session_init where
  "ex_init =
     \<lparr> init_rawAssistantText = ''Checking.'', init_contentBlocks = [OtherBlock ''tool_use''],
       init_toolCalls = [ex_call], init_executedToolResults = [],
       init_usage = \<lparr> inputTokens = 3, outputTokens = 2 \<rparr> \<rparr>"

definition ex_options :: "int option \<Rightarrow> session_options" where
  "ex_options ttl =
     \<lparr> opt_apiKey = None, opt_providerConfig = None, opt_membraneOptions = None,
       ttlMs = ttl \<rparr>"

definition ex_updates :: session_updates where
  "ex_updates =
     \<lparr> upd_rawAssistantText = Some ''Checking. Sunny.'', upd_contentBlocks = None,
       upd_toolCalls = None, upd_executedToolResults = None, upd_usage = None \<rparr>"

section \<open>Evaluation and the shape of the handlers\<close>

text \<open>
  The definitions of the concrete inputs, of the handlers and of the store, as the
  simplifier unfolds them on a concrete input.
\<close>

lemmas ex_defs = ex_config_def ex_request_def ex_tool_result_def ex_continueFrom_request_def
  ex_call_def ex_response_def ex_env_def ex_session_def ex_state_def ex_suspended_def
  ex_streaming_def ex_continue_body_def ex_context_request_def

lemmas handler_defs = stream_handler_def stream_try_def continue_handler_def continue_try_def
  context_stream_handler_def context_try_def newAbortController_def activeStreams_set_def
  cleanupStream_def catch_block_def sent_def Let_def getSession_def

lemmas store_defs = createSession_def updateSession_def deleteSession_def getSessionCount_def
  assign_updates_def merged_updates_def default_ttl_def

text \<open>
  With the body parsed (and, for a continuation, with the session found), a streaming
  handler is its \<^verbatim>\<open>try\<close> block between the registration and the \<^verbatim>\<open>finally\<close> block.
\<close>

lemma stream_handler_unfold:
  "stream_handler config st env (ParseSuccess req) =
     (let prov = (case req_provider req of None \<Rightarrow> defaultProvider config | Some p \<Rightarrow> p);
          streamId = gen_streamId env;
          ctl = nextController st;
          t = stream_try config (activeStreams_set (fst (newAbortController st)) streamId ctl)
                env req prov streamId ctl
      in (cleanupStream (fst (fst t)) streamId,
          [RegistrySet streamId ctl, WriteHead 200, SendEvent (StreamStart streamId)]
          @ snd (fst t) @ catch_block prov (snd t) @ [RegistryDelete streamId, EndReply]))"
  by (simp add: stream_handler_def newAbortController_def Let_def split: prod.splits)

lemma continue_handler_unfold:
  "truthy (body_sessionId body) \<Longrightarrow> isArray (body_toolResults body) \<Longrightarrow>
   getSession_field (sessions st) (now_get env) (body_sessionId body) = (ss, Some session) \<Longrightarrow>
   continue_handler st env body =
     (let sessionId = id_string (body_sessionId body);
          streamId = gen_streamId env;
          ctl = nextController st;
          t = continue_try
                (activeStreams_set (fst (newAbortController (st\<lparr> sessions := ss \<rparr>))) streamId ctl)
                env sessionId session (array_elements (body_toolResults body)) ctl
      in (cleanupStream (fst (fst t)) streamId,
          [RegistrySet streamId ctl, WriteHead 200, SendEvent (StreamStart streamId)]
          @ snd (fst t) @ catch_block (provider session) (snd t)
          @ [RegistryDelete streamId, EndReply]))"
  by (simp add: continue_handler_def newAbortController_def Let_def split: prod.splits)

lemma context_stream_handler_unfold:
  "context_stream_handler config st env (ParseSuccess req) =
     (let prov = (case ctx_provider req of None \<Rightarrow> defaultProvider config | Some p \<Rightarrow> p);
          streamId = gen_streamId env;
          ctl = nextController st;
          t = context_try config (activeStreams_set (fst (newAbortController st)) streamId ctl)
                env req prov ctl
      in (cleanupStream (fst (fst t)) streamId,
          [RegistrySet streamId ctl, WriteHead 200, SendEvent (StreamStart streamId)]
          @ snd (fst t) @ catch_block prov (snd t) @ [RegistryDelete streamId, EndReply]))"
  by (simp add: context_stream_handler_def newAbortController_def Let_def split: prod.splits)

lemma continue_handler_invalid:
  "\<not> truthy (body_sessionId body) \<or> \<not> isArray (body_toolResults body) \<Longrightarrow>
   continue_handler st env body = (st, [ReplySend 400 (ErrorBody invalid_continue_request None)])"
  by (auto simp: continue_handler_def)

lemma continue_handler_miss:
  "truthy (body_sessionId body) \<Longrightarrow> isArray (body_toolResults body) \<Longrightarrow>
   getSession_field (sessions st) (now_get env) (body_sessionId body) = (ss, None) \<Longrightarrow>
   continue_handler st env body =
     (st\<lparr> sessions := ss \<rparr>, [ReplySend 404 (ErrorBody session_not_found None)])"
  by (simp add: continue_handler_def)

section \<open>The session store\<close>

lemma getSession_live:
  "map_of ss i = Some s \<Longrightarrow> \<not> expiresAt s < now \<Longrightarrow> getSession ss now i = (ss, Some s)"
  by (simp add: getSession_def)

lemma getSession_absent:
  "map_of ss i = None \<Longrightarrow> getSession ss now i = (ss, None)"
  by (simp add: getSession_def)

lemma getSession_expired:
  "map_of ss i = Some s \<Longrightarrow> expiresAt s < now \<Longrightarrow> getSession ss now i = (AList.delete i ss, None)"
  by (simp add: getSession_def)

lemma updateSession_live:
  "map_of ss i = Some s \<Longrightarrow> \<not> expiresAt s < now \<Longrightarrow>
   updateSession ss now now' i u =
     (AList.update i ((assign_updates s u)\<lparr> expiresAt := now' + 300000 \<rparr>) ss,
      Some ((assign_updates s u)\<lparr> expiresAt := now' + 300000 \<rparr>))"
  by (simp add: updateSession_def getSession_live Let_def)

lemma map_of_updateSession:
  "map_of ss i = Some s \<Longrightarrow>
   map_of (fst (updateSession ss now now' i u)) i =
     (if expiresAt s < now then None
      else Some ((assign_updates s u)\<lparr> expiresAt := now' + 300000 \<rparr>))"
  by (simp add: updateSession_def getSession_def Let_def update_conv' delete_conv')

lemma map_of_updateSession_other:
  "k \<noteq> i \<Longrightarrow> map_of (fst (updateSession ss now now' i u)) k = map_of ss k"
  by (simp add: updateSession_def getSession_def Let_def update_conv' delete_conv'
      split: option.splits)

lemma length_alist_update:
  "length (AList.update k v al) = (if k \<in> fst ` set al then length al else Suc (length al))"
  by (induct al) auto

lemma delete_keys_subset:
  "fst ` set (AList.delete k al) \<subseteq> fst ` set al"
  by (induct al) auto

lemma updateSession_cases:
  "fst (updateSession ss now now' i u) = ss
   \<or> fst (updateSession ss now now' i u) = AList.delete i ss
   \<or> (i \<in> fst ` set ss \<and> (\<exists>s'. fst (updateSession ss now now' i u) = AList.update i s' ss))"
proof (cases "map_of ss i")
  case None
  then show ?thesis by (simp add: updateSession_def getSession_def)
next
  case (Some s)
  then have "(i, s) \<in> set ss" by (rule map_of_SomeD)
  then have k: "i \<in> fst ` set ss" by force
  show ?thesis
  proof (cases "expiresAt s < now")
    case True
    with Some show ?thesis by (simp add: updateSession_def getSession_def)
  next
    case False
    with Some have "fst (updateSession ss now now' i u)
        = AList.update i ((assign_updates s u)\<lparr> expiresAt := now' + 300000 \<rparr>) ss"
      by (simp add: updateSession_live)
    with k show ?thesis by blast
  qed
qed

lemma updateSession_keys:
  "fst ` set (fst (updateSession ss now now' i u)) \<subseteq> fst ` set ss"
proof -
  consider "fst (updateSession ss now now' i u) = ss"
    | "fst (updateSession ss now now' i u) = AList.delete i ss"
    | s' where "i \<in> fst ` set ss" "fst (updateSession ss now now' i u) = AList.update i s' ss"
    using updateSession_cases [of ss now now' i u] by blast
  then show ?thesis
  proof cases
    case 1
    then show ?thesis by simp
  next
    case 2
    then show ?thesis by (simp add: delete_keys_subset)
  next
    case 3
    then show ?thesis by (simp add: dom_update)
  qed
qed

lemma updateSession_length:
  "length (fst (updateSession ss now now' i u)) \<le> length ss"
proof -
  consider "fst (updateSession ss now now' i u) = ss"
    | "fst (updateSession ss now now' i u) = AList.delete i ss"
    | s' where "i \<in> fst ` set ss" "fst (updateSession ss now now' i u) = AList.update i s' ss"
    using updateSession_cases [of ss now now' i u] by blast
  then show ?thesis
  proof cases
    case 1
    then show ?thesis by simp
  next
    case 2
    then show ?thesis by (simp add: length_delete_le)
  next
    case 3
    then show ?thesis by (simp add: length_alist_update)
  qed
qed

lemma getSession_field_found:
  "getSession_field ss now f = (ss', Some s) \<Longrightarrow>
   f = IdString (id_string f) \<and> ss' = ss \<and> map_of ss (id_string f) = Some s
   \<and> \<not> expiresAt s < now"
  by (cases f) (auto simp: getSession_def split: option.splits if_splits)

lemma getSession_field_miss:
  "map_of ss sid = None \<or> (\<exists>s. map_of ss sid = Some s \<and> expiresAt s < now) \<Longrightarrow>
   snd (getSession_field ss now (IdString sid)) = None"
  by (auto simp: getSession_def)




section \<open>Cancelling a stream\<close>



section \<open>What the collaborator is asked\<close>

lemma sent_no_call:
  "MembraneStream nr c \<notin> set (sent f cbs)" "MembraneComplete nr \<notin> set (sent f cbs)"
  by (auto simp: sent_def)

lemma catch_block_no_call:
  "MembraneStream nr c \<notin> set (catch_block p e)" "MembraneComplete nr \<notin> set (catch_block p e)"
  by (auto simp: catch_block_def split: option.splits)

lemma stream_try_calls:
  "MembraneStream nr c \<in> set (snd (fst (stream_try config st env req prov sid ctl)))
   \<Longrightarrow> nr = buildNormalizedRequest req config"
  by (auto simp: stream_try_def Let_def sent_no_call split: option.splits if_splits stream_result.splits prod.splits)

lemma stream_handler_calls:
  "MembraneStream nr c \<in> set (snd (stream_handler config st env (ParseSuccess req)))
   \<Longrightarrow> nr = buildNormalizedRequest req config"
  by (auto simp: stream_handler_unfold Let_def catch_block_no_call dest: stream_try_calls)

lemma complete_handler_calls:
  "MembraneComplete nr \<in> set (snd (complete_handler config st env outcome (ParseSuccess req)))
   \<Longrightarrow> nr = buildNormalizedRequest req config"
  by (auto simp: complete_handler_def Let_def handleError_def split: option.splits sum.splits)

lemma context_try_calls:
  "ProcessContext ci cs c \<in> set (snd (fst (context_try config st env req prov ctl)))
   \<Longrightarrow> g_maxTokens (ci_config ci) =
         min (case ctx_maxTokens req of None \<Rightarrow> 4096 | Some m \<Rightarrow> m) (maxTokensLimit config)"
  by (auto simp: context_try_def Let_def sent_def
      split: option.splits stream_result.splits)

lemma context_stream_handler_calls:
  "ProcessContext ci cs c
     \<in> set (snd (context_stream_handler config st env (ParseSuccess req)))
   \<Longrightarrow> g_maxTokens (ci_config ci) =
         min (case ctx_maxTokens req of None \<Rightarrow> 4096 | Some m \<Rightarrow> m) (maxTokensLimit config)"
  by (auto simp: context_stream_handler_unfold Let_def catch_block_def
      split: option.splits dest: context_try_calls)

text \<open>
  Claim C10. The \<^verbatim>\<open>maxTokens\<close> of the request that \<^verbatim>\<open>buildNormalizedRequest\<close> builds is
  the smaller of the requested value (4096 when the request has none) and the server's
  \<^verbatim>\<open>maxTokensLimit\<close>, so it never exceeds the limit; every request that
  \<^verbatim>\<open>/v1/complete\<close> and \<^verbatim>\<open>/v1/stream\<close> pass to the collaborator is that request, and
  the input that \<^verbatim>\<open>/v1/context/stream\<close> passes on is capped in the same way.
\<close>

theorem maxTokens_capped:
  "g_maxTokens (n_config (buildNormalizedRequest req config)) =
     min (case req_maxTokens req of None \<Rightarrow> 4096 | Some m \<Rightarrow> m) (maxTokensLimit config)
   \<and> g_maxTokens (n_config (buildNormalizedRequest req config)) \<le> maxTokensLimit config
   \<and> (\<forall>nr. MembraneComplete nr
             \<in> set (snd (complete_handler config st env outcome (ParseSuccess req)))
           \<longrightarrow> g_maxTokens (n_config nr) =
                 min (case req_maxTokens req of None \<Rightarrow> 4096 | Some m \<Rightarrow> m)
                     (maxTokensLimit config))
   \<and> (\<forall>nr c. MembraneStream nr c
             \<in> set (snd (stream_handler config st env (ParseSuccess req)))
           \<longrightarrow> g_maxTokens (n_config nr) =
                 min (case req_maxTokens req of None \<Rightarrow> 4096 | Some m \<Rightarrow> m)
                     (maxTokensLimit config))
   \<and> (\<forall>ci cs c. ProcessContext ci cs c
             \<in> set (snd (context_stream_handler config st env (ParseSuccess creq)))
           \<longrightarrow> g_maxTokens (ci_config ci) =
                 min (case ctx_maxTokens creq of None \<Rightarrow> 4096 | Some m \<Rightarrow> m)
                     (maxTokensLimit config))"
proof -
  have b: "g_maxTokens (n_config (buildNormalizedRequest req config)) =
     min (case req_maxTokens req of None \<Rightarrow> 4096 | Some m \<Rightarrow> m) (maxTokensLimit config)"
    by (simp add: buildNormalizedRequest_def Let_def)
  show ?thesis
    using b complete_handler_calls [of _ config st env outcome req]
      stream_handler_calls [of _ _ config st env req]
      context_stream_handler_calls [of _ _ _ config st env creq]
    by (intro conjI allI impI) simp_all
qed

theorem maxTokens_capped_witness:
  "req_maxTokens ex_request = Some 100000
   \<and> maxTokensLimit ex_config = 32000
   \<and> MembraneStream (buildNormalizedRequest ex_request ex_config) 0
       \<in> set (snd (stream_handler ex_config ex_state ex_env (ParseSuccess ex_request)))
   \<and> MembraneComplete (buildNormalizedRequest ex_request ex_config)
       \<in> set (snd (complete_handler ex_config ex_state ex_env (Inr ex_response)
                      (ParseSuccess ex_request)))
   \<and> g_maxTokens (n_config (buildNormalizedRequest ex_request ex_config)) = 32000
   \<and> ctx_maxTokens ex_context_request = None
   \<and> ProcessContext
         \<lparr> ci_messages = [\<lparr> participant = ''User'',
                             blocks = [TextBlock ''Weather in Paris?''] \<rparr>],
           ci_system = None, ci_tools = None,
           ci_config = \<lparr> g_model = ''claude-sonnet-4-20250514'', g_maxTokens = 4096,
                         g_temperature = 1, g_thinking = None \<rparr>,
           ci_context = ''{}'' \<rparr> None 0
       \<in> set (snd (context_stream_handler ex_config ex_state ex_env
                      (ParseSuccess ex_context_request)))"
  using maxTokens_capped [of ex_request ex_config ex_state ex_env "Inr ex_response"
      ex_context_request]
  by (simp add: ex_request_def ex_config_def stream_handler_def stream_try_def
      complete_handler_def ex_env_def ex_state_def newAbortController_def Let_def
      activeStreams_set_def ex_response_def createSession_def context_stream_handler_def
      context_try_def ex_context_request_def buildNormalizedRequest_def)

section \<open>Registration and cleanup of streams\<close>

text \<open>
  A \<^verbatim>\<open>try\<close> block never registers a stream, and it leaves \<^verbatim>\<open>activeStreams\<close> as it
  found it, but for the \<^verbatim>\<open>continueFrom\<close> branch of \<^verbatim>\<open>/v1/stream\<close>, which removes the
  stream's own entry.
\<close>

lemma sent_only_events [simp]:
  "RegistrySet sid c \<notin> set (sent f cbs)" "RegistryDelete sid \<notin> set (sent f cbs)"
  by (auto simp: sent_def)

lemma catch_block_only_events [simp]:
  "RegistrySet sid c \<notin> set (catch_block p e)" "RegistryDelete sid \<notin> set (catch_block p e)"
  by (auto simp: catch_block_def split: option.splits)

lemma stream_try_registry:
  "activeStreams (fst (fst (stream_try config st env req prov sid ctl))) = activeStreams st
   \<or> activeStreams (fst (fst (stream_try config st env req prov sid ctl)))
       = AList.delete sid (activeStreams st)"
  by (simp add: stream_try_def Let_def cleanupStream_def
      split: option.splits stream_result.splits prod.splits)

lemma continue_try_registry:
  "activeStreams (fst (fst (continue_try st env sessionId session elements ctl))) = activeStreams st"
  by (simp add: continue_try_def Let_def
      split: option.splits sum.splits stream_result.splits prod.splits)

lemma context_try_state:
  "fst (fst (context_try config st env req prov ctl)) = st"
  by (simp add: context_try_def Let_def split: option.splits stream_result.splits)

lemma stream_try_no_set:
  "RegistrySet k c \<notin> set (snd (fst (stream_try config st env req prov sid ctl)))"
  by (simp add: stream_try_def Let_def
      split: option.splits stream_result.splits prod.splits)

lemma continue_try_no_set:
  "RegistrySet k c \<notin> set (snd (fst (continue_try st env sessionId session elements ctl)))"
  by (simp add: continue_try_def Let_def
      split: option.splits sum.splits stream_result.splits prod.splits)

lemma context_try_no_set:
  "RegistrySet k c \<notin> set (snd (fst (context_try config st env req prov ctl)))"
  by (simp add: context_try_def Let_def split: option.splits stream_result.splits)

lemma registered_state:
  "activeStreams (activeStreams_set (fst (newAbortController st)) sid ctl)
     = AList.update sid ctl (activeStreams st)"
  by (simp add: activeStreams_set_def newAbortController_def)

lemma cleanup_after_set:
  "activeStreams st1 = AList.update sid ctl reg
   \<or> activeStreams st1 = AList.delete sid (AList.update sid ctl reg)
   \<Longrightarrow> activeStreams (cleanupStream st1 sid) = AList.delete sid reg"
  by (auto simp: cleanupStream_def delete_update_same delete_idem)

lemma stream_handler_registry:
  "activeStreams (fst (stream_handler config st env (ParseSuccess req)))
     = AList.delete (gen_streamId env) (activeStreams st)"
proof -
  define st1 where "st1 = activeStreams_set (fst (newAbortController st)) (gen_streamId env)
                            (nextController st)"
  define prov where "prov = (case req_provider req of None \<Rightarrow> defaultProvider config | Some p \<Rightarrow> p)"
  define t where "t = stream_try config st1 env req prov (gen_streamId env) (nextController st)"
  have "activeStreams (fst (fst t)) = activeStreams st1
        \<or> activeStreams (fst (fst t)) = AList.delete (gen_streamId env) (activeStreams st1)"
    unfolding t_def by (rule stream_try_registry)
  then have "activeStreams (cleanupStream (fst (fst t)) (gen_streamId env))
               = AList.delete (gen_streamId env) (activeStreams st)"
    by (intro cleanup_after_set [where ctl = "nextController st"])
       (simp add: st1_def registered_state)
  then show ?thesis
    by (simp add: stream_handler_unfold Let_def t_def st1_def prov_def)
qed

lemma continue_handler_registry:
  assumes "truthy (body_sessionId body)" "isArray (body_toolResults body)"
    "getSession_field (sessions st) (now_get env) (body_sessionId body) = (ss, Some session)"
  shows "activeStreams (fst (continue_handler st env body))
           = AList.delete (gen_streamId env) (activeStreams st)"
proof -
  define st1 where "st1 = activeStreams_set (fst (newAbortController (st\<lparr> sessions := ss \<rparr>)))
                            (gen_streamId env) (nextController st)"
  define t where "t = continue_try st1 env (id_string (body_sessionId body)) session
                        (array_elements (body_toolResults body)) (nextController st)"
  have "activeStreams (fst (fst t)) = activeStreams st1"
    unfolding t_def by (rule continue_try_registry)
  then have "activeStreams (cleanupStream (fst (fst t)) (gen_streamId env))
               = AList.delete (gen_streamId env) (activeStreams st)"
    by (intro cleanup_after_set [where ctl = "nextController st"])
       (simp add: st1_def registered_state)
  then show ?thesis
    by (simp add: continue_handler_unfold [OF assms] Let_def t_def st1_def)
qed

lemma context_stream_handler_registry:
  "activeStreams (fst (context_stream_handler config st env (ParseSuccess req)))
     = AList.delete (gen_streamId env) (activeStreams st)"
  by (simp add: context_stream_handler_unfold Let_def context_try_state cleanupStream_def
      registered_state delete_update_same)

lemma stream_handler_registers:
  "RegistrySet sid c \<in> set (snd (stream_handler config st env body)) \<Longrightarrow>
   (\<exists>req. body = ParseSuccess req) \<and> sid = gen_streamId env \<and> c = nextController st"
proof (cases body)
  case (ParseFailure issues)
  assume "RegistrySet sid c \<in> set (snd (stream_handler config st env body))"
  with ParseFailure show ?thesis by (simp add: stream_handler_def invalid_body_def)
next
  case (ParseSuccess req)
  assume "RegistrySet sid c \<in> set (snd (stream_handler config st env body))"
  with ParseSuccess show ?thesis
    by (auto simp: stream_handler_unfold Let_def stream_try_no_set)
qed

lemma context_stream_handler_registers:
  "RegistrySet sid c \<in> set (snd (context_stream_handler config st env body)) \<Longrightarrow>
   (\<exists>req. body = ParseSuccess req) \<and> sid = gen_streamId env \<and> c = nextController st"
proof (cases body)
  case (ParseFailure issues)
  assume "RegistrySet sid c \<in> set (snd (context_stream_handler config st env body))"
  with ParseFailure show ?thesis by (simp add: context_stream_handler_def invalid_body_def)
next
  case (ParseSuccess req)
  assume "RegistrySet sid c \<in> set (snd (context_stream_handler config st env body))"
  with ParseSuccess show ?thesis
    by (auto simp: context_stream_handler_unfold Let_def context_try_no_set)
qed

lemma continue_handler_registers:
  assumes "RegistrySet sid c \<in> set (snd (continue_handler st env body))"
  shows "truthy (body_sessionId body) \<and> isArray (body_toolResults body)
    \<and> (\<exists>ss session. getSession_field (sessions st) (now_get env) (body_sessionId body)
                       = (ss, Some session))
    \<and> sid = gen_streamId env \<and> c = nextController st"
proof -
  obtain ss r where g: "getSession_field (sessions st) (now_get env) (body_sessionId body) = (ss, r)"
    by (cases "getSession_field (sessions st) (now_get env) (body_sessionId body)")
  have v: "truthy (body_sessionId body) \<and> isArray (body_toolResults body)"
  proof (rule ccontr)
    assume "\<not> (truthy (body_sessionId body) \<and> isArray (body_toolResults body))"
    then have "\<not> truthy (body_sessionId body) \<or> \<not> isArray (body_toolResults body)" by blast
    from continue_handler_invalid [OF this] assms show False by simp
  qed
  have "r \<noteq> None"
  proof
    assume "r = None"
    with v g have "continue_handler st env body =
        (st\<lparr> sessions := ss \<rparr>, [ReplySend 404 (ErrorBody session_not_found None)])"
      by (simp add: continue_handler_miss)
    with assms show False by simp
  qed
  then obtain session where r: "r = Some session" by auto
  from v g r assms show ?thesis
    by (auto simp: continue_handler_unfold Let_def continue_try_no_set)
qed

text \<open>
  Claim C2. Whenever one of the three streaming handlers (\<^verbatim>\<open>/v1/stream\<close>,
  \<^verbatim>\<open>/v1/continue\<close>, \<^verbatim>\<open>/v1/context/stream\<close>) registers a stream identifier, that
  identifier is not in \<^verbatim>\<open>activeStreams\<close> when the handler has finished, whatever the
  collaborator did (a response, an aborted response, or an exception): the map is then
  the map from before the request without that identifier. The registration is the
  handler's first effect and the removal is its last but one, before the reply is ended,
  so that everything asked of the collaborator lies between them.
\<close>

theorem registration_paired_with_cleanup:
  "(RegistrySet sid c \<in> set (snd (stream_handler config st env body)) \<longrightarrow>
      map_of (activeStreams (fst (stream_handler config st env body))) sid = None
      \<and> activeStreams (fst (stream_handler config st env body))
          = AList.delete sid (activeStreams st)
      \<and> (\<exists>mid. snd (stream_handler config st env body)
                 = RegistrySet sid c # mid @ [RegistryDelete sid, EndReply]))
   \<and> (RegistrySet sid c \<in> set (snd (continue_handler st env cbody)) \<longrightarrow>
      map_of (activeStreams (fst (continue_handler st env cbody))) sid = None
      \<and> activeStreams (fst (continue_handler st env cbody))
          = AList.delete sid (activeStreams st)
      \<and> (\<exists>mid. snd (continue_handler st env cbody)
                 = RegistrySet sid c # mid @ [RegistryDelete sid, EndReply]))
   \<and> (RegistrySet sid c \<in> set (snd (context_stream_handler config st env xbody)) \<longrightarrow>
      map_of (activeStreams (fst (context_stream_handler config st env xbody))) sid = None
      \<and> activeStreams (fst (context_stream_handler config st env xbody))
          = AList.delete sid (activeStreams st)
      \<and> (\<exists>mid. snd (context_stream_handler config st env xbody)
                 = RegistrySet sid c # mid @ [RegistryDelete sid, EndReply]))"
proof (intro conjI impI)
  assume a: "RegistrySet sid c \<in> set (snd (stream_handler config st env body))"
  from stream_handler_registers [OF a] obtain req where
    b: "body = ParseSuccess req" "sid = gen_streamId env" "c = nextController st" by blast
  show r: "activeStreams (fst (stream_handler config st env body))
          = AList.delete sid (activeStreams st)"
    by (simp add: b stream_handler_registry)
  show "map_of (activeStreams (fst (stream_handler config st env body))) sid = None"
    by (simp add: r delete_conv')
  show "\<exists>mid. snd (stream_handler config st env body)
                 = RegistrySet sid c # mid @ [RegistryDelete sid, EndReply]"
    by (simp add: b stream_handler_unfold Let_def)
next
  assume a: "RegistrySet sid c \<in> set (snd (continue_handler st env cbody))"
  from continue_handler_registers [OF a] obtain ss session where
    b: "truthy (body_sessionId cbody)" "isArray (body_toolResults cbody)"
       "getSession_field (sessions st) (now_get env) (body_sessionId cbody) = (ss, Some session)"
       "sid = gen_streamId env" "c = nextController st" by blast
  show r: "activeStreams (fst (continue_handler st env cbody))
          = AList.delete sid (activeStreams st)"
    using continue_handler_registry [OF b(1,2,3)] by (simp add: b)
  show "map_of (activeStreams (fst (continue_handler st env cbody))) sid = None"
    by (simp add: r delete_conv')
  show "\<exists>mid. snd (continue_handler st env cbody)
                 = RegistrySet sid c # mid @ [RegistryDelete sid, EndReply]"
    by (simp add: b continue_handler_unfold [OF b(1,2,3)] Let_def)
next
  assume a: "RegistrySet sid c \<in> set (snd (context_stream_handler config st env xbody))"
  from context_stream_handler_registers [OF a] obtain req where
    b: "xbody = ParseSuccess req" "sid = gen_streamId env" "c = nextController st" by blast
  show r: "activeStreams (fst (context_stream_handler config st env xbody))
          = AList.delete sid (activeStreams st)"
    by (simp add: b context_stream_handler_registry)
  show "map_of (activeStreams (fst (context_stream_handler config st env xbody))) sid = None"
    by (simp add: r delete_conv')
  show "\<exists>mid. snd (context_stream_handler config st env xbody)
                 = RegistrySet sid c # mid @ [RegistryDelete sid, EndReply]"
    by (simp add: b context_stream_handler_unfold Let_def)
qed

theorem registration_paired_with_cleanup_witness:
  "RegistrySet ''str_1'' 0
     \<in> set (snd (stream_handler ex_config ex_suspended
                    (ex_env\<lparr> result := Threw (PlainError ''socket hang up'') \<rparr>)
                    (ParseSuccess ex_request)))
   \<and> activeStreams (fst (stream_handler ex_config ex_suspended
                    (ex_env\<lparr> result := Threw (PlainError ''socket hang up'') \<rparr>)
                    (ParseSuccess ex_request))) = []
   \<and> RegistrySet ''str_1'' 0
     \<in> set (snd (continue_handler ex_suspended
                    (ex_env\<lparr> result := Threw (PlainError ''socket hang up'') \<rparr>)
                    ex_continue_body))
   \<and> activeStreams (fst (continue_handler ex_suspended
                    (ex_env\<lparr> result := Threw (PlainError ''socket hang up'') \<rparr>)
                    ex_continue_body)) = []
   \<and> RegistrySet ''str_1'' 0
     \<in> set (snd (context_stream_handler ex_config ex_suspended
                    (ex_env\<lparr> result := Threw (PlainError ''socket hang up'') \<rparr>)
                    (ParseSuccess ex_context_request)))
   \<and> activeStreams (fst (context_stream_handler ex_config ex_suspended
                    (ex_env\<lparr> result := Threw (PlainError ''socket hang up'') \<rparr>)
                    (ParseSuccess ex_context_request))) = []"
  using registration_paired_with_cleanup
    [of "''str_1''" 0 ex_config ex_suspended
        "ex_env\<lparr> result := Threw (PlainError ''socket hang up'') \<rparr>"
        "ParseSuccess ex_request" ex_continue_body "ParseSuccess ex_context_request"]
  by (simp add: ex_defs handler_defs)

section \<open>Requests rejected by the continuation handler\<close>




section \<open>\<^verbatim>\<open>continueFrom\<close> on the fresh-stream endpoint\<close>

lemma stream_try_continueFrom:
  "req_continueFrom req \<noteq> None \<Longrightarrow>
   stream_try config st env req prov sid ctl =
     (case createMembrane_throws env of
        Some e \<Rightarrow> ((st, []), Some e)
      | None \<Rightarrow> ((cleanupStream st sid,
                  [SendEvent (ErrorEvent use_continue_endpoint), EndReply, RegistryDelete sid]),
                 None))"
  by (simp add: stream_try_def Let_def split: option.splits)

text \<open>
  Claim C1, as the code has it. For a parsed body of \<^verbatim>\<open>/v1/stream\<close> with a
  \<^verbatim>\<open>continueFrom\<close> field the collaborator's \<^verbatim>\<open>stream\<close> is never invoked and no
  session is touched. The handler does register the generated stream identifier and
  sends \<^verbatim>\<open>stream_start\<close> first; when \<^verbatim>\<open>createMembrane\<close> succeeds it then sends the
  \<^verbatim>\<open>error\<close> event \<^verbatim>\<open>use_continue_endpoint\<close>, which points the client to
  \<^verbatim>\<open>POST /v1/continue\<close>, ends the reply and removes the identifier again, so that the
  identifier is not in \<^verbatim>\<open>activeStreams\<close> when the handler has finished.
\<close>

theorem continueFrom_rejected:
  "req_continueFrom req \<noteq> None \<longrightarrow>
     (createMembrane_throws env = None \<longrightarrow>
        snd (stream_handler config st env (ParseSuccess req)) =
          [RegistrySet (gen_streamId env) (nextController st), WriteHead 200,
           SendEvent (StreamStart (gen_streamId env)),
           SendEvent (ErrorEvent use_continue_endpoint), EndReply,
           RegistryDelete (gen_streamId env), RegistryDelete (gen_streamId env), EndReply])
     \<and> (\<forall>nr c. MembraneStream nr c \<notin> set (snd (stream_handler config st env (ParseSuccess req))))
     \<and> activeStreams (fst (stream_handler config st env (ParseSuccess req)))
         = AList.delete (gen_streamId env) (activeStreams st)
     \<and> map_of (activeStreams (fst (stream_handler config st env (ParseSuccess req))))
         (gen_streamId env) = None
     \<and> sessions (fst (stream_handler config st env (ParseSuccess req))) = sessions st"
proof (intro impI conjI allI)
  assume a: "req_continueFrom req \<noteq> None"
  show "snd (stream_handler config st env (ParseSuccess req)) =
          [RegistrySet (gen_streamId env) (nextController st), WriteHead 200,
           SendEvent (StreamStart (gen_streamId env)),
           SendEvent (ErrorEvent use_continue_endpoint), EndReply,
           RegistryDelete (gen_streamId env), RegistryDelete (gen_streamId env), EndReply]"
    if "createMembrane_throws env = None"
    using that a by (simp add: stream_handler_unfold Let_def stream_try_continueFrom catch_block_def)
  show "MembraneStream nr c \<notin> set (snd (stream_handler config st env (ParseSuccess req)))" for nr c
    using a
    by (simp add: stream_handler_unfold Let_def stream_try_continueFrom catch_block_def
        split: option.splits)
  show r: "activeStreams (fst (stream_handler config st env (ParseSuccess req)))
         = AList.delete (gen_streamId env) (activeStreams st)"
    by (rule stream_handler_registry)
  show "map_of (activeStreams (fst (stream_handler config st env (ParseSuccess req))))
         (gen_streamId env) = None"
    by (simp add: r delete_conv')
  show "sessions (fst (stream_handler config st env (ParseSuccess req))) = sessions st"
    using a
    by (simp add: stream_handler_unfold Let_def stream_try_continueFrom cleanupStream_def
        activeStreams_set_def newAbortController_def split: option.splits)
qed

theorem continueFrom_rejected_witness:
  "req_continueFrom ex_continueFrom_request \<noteq> None
   \<and> createMembrane_throws ex_env = None
   \<and> snd (stream_handler ex_config ex_state ex_env (ParseSuccess ex_continueFrom_request)) =
       [RegistrySet ''str_1'' 0, WriteHead 200, SendEvent (StreamStart ''str_1''),
        SendEvent (ErrorEvent use_continue_endpoint), EndReply,
        RegistryDelete ''str_1'', RegistryDelete ''str_1'', EndReply]
   \<and> activeStreams (fst (stream_handler ex_config ex_state ex_env
                            (ParseSuccess ex_continueFrom_request))) = []"
  using continueFrom_rejected [of ex_continueFrom_request ex_env ex_config ex_state]
  by (simp add: ex_defs)

text \<open>
  Claim C1 as written does not hold: the stream identifier is registered before the
  \<^verbatim>\<open>continueFrom\<close> field is looked at. And when \<^verbatim>\<open>createMembrane\<close> throws (no
  credential for the provider), the \<^verbatim>\<open>error\<close> event reports that failure and the
  client is not told of the continuation endpoint.
\<close>

theorem continueFrom_rejected_counterexample:
  "req_continueFrom ex_continueFrom_request \<noteq> None
   \<and> RegistrySet ''str_1'' 0
       \<in> set (snd (stream_handler ex_config ex_state ex_env (ParseSuccess ex_continueFrom_request)))
   \<and> snd (stream_handler ex_config ex_state
            (ex_env\<lparr> createMembrane_throws := Some (PlainError ''No API key for Anthropic'') \<rparr>)
            (ParseSuccess ex_continueFrom_request)) =
       [RegistrySet ''str_1'' 0, WriteHead 200, SendEvent (StreamStart ''str_1''),
        ProviderHealth ''anthropic'' False,
        SendEvent (ErrorEvent \<lparr> code = ''internal_error'',
                                message_text = ''No API key for Anthropic'',
                                retryable = False \<rparr>),
        RegistryDelete ''str_1'', EndReply]"
  by (simp add: ex_defs handler_defs)

section \<open>Registering an identifier that is already registered\<close>

text \<open>
  Claim C8, as the code has it. Registering a stream (\<^verbatim>\<open>new AbortController()\<close>, then
  \<^verbatim>\<open>activeStreams.set\<close>) never fails. It stores a newly allocated controller whose signal
  is not aborted under the identifier and leaves every other entry as it was. When the
  identifier was not in the map the map grows by one entry; when it was, the stored
  controller is replaced and the map keeps its size. In both cases \<^verbatim>\<open>/v1/stream\<close> goes
  on to send \<^verbatim>\<open>stream_start\<close>.
\<close>

theorem register_overwrites:
  "snd (newAbortController st) = nextController st
   \<and> map_of (activeStreams (activeStreams_set (fst (newAbortController st)) sid
                              (snd (newAbortController st)))) sid
       = Some (nextController st)
   \<and> \<not> aborted (activeStreams_set (fst (newAbortController st)) sid
                   (snd (newAbortController st))) (nextController st)
   \<and> (\<forall>k. k \<noteq> sid \<longrightarrow>
         map_of (activeStreams (activeStreams_set (fst (newAbortController st)) sid
                                  (snd (newAbortController st)))) k
           = map_of (activeStreams st) k)
   \<and> (map_of (activeStreams st) sid = None \<longrightarrow>
         length (activeStreams (activeStreams_set (fst (newAbortController st)) sid
                                  (snd (newAbortController st))))
           = Suc (length (activeStreams st)))
   \<and> (map_of (activeStreams st) sid \<noteq> None \<longrightarrow>
         length (activeStreams (activeStreams_set (fst (newAbortController st)) sid
                                  (snd (newAbortController st))))
           = length (activeStreams st))
   \<and> (\<exists>rest. snd (stream_handler config st env (ParseSuccess req))
         = RegistrySet (gen_streamId env) (nextController st) # WriteHead 200
           # SendEvent (StreamStart (gen_streamId env)) # rest)"
  by (auto simp: newAbortController_def activeStreams_set_def update_conv' length_alist_update
      map_of_eq_None_iff stream_handler_unfold Let_def)

theorem register_overwrites_witness:
  "map_of (activeStreams ex_state) ''str_1'' = None
   \<and> activeStreams (activeStreams_set (fst (newAbortController ex_state)) ''str_1''
                      (snd (newAbortController ex_state))) = [(''str_1'', 0)]
   \<and> map_of (activeStreams ex_streaming) ''str_1'' \<noteq> None
   \<and> activeStreams (activeStreams_set (fst (newAbortController ex_streaming)) ''str_1''
                      (snd (newAbortController ex_streaming))) = [(''str_1'', 1)]
   \<and> map_of (activeStreams (activeStreams_set (fst (newAbortController ex_streaming)) ''str_2''
                      (snd (newAbortController ex_streaming)))) ''str_1'' = Some 0"
  using register_overwrites [of ex_state "''str_1''" ex_config ex_env ex_request]
    register_overwrites [of ex_streaming "''str_1''" ex_config ex_env ex_request]
    register_overwrites [of ex_streaming "''str_2''" ex_config ex_env ex_request]
  by (simp add: ex_state_def ex_streaming_def newAbortController_def activeStreams_set_def)

text \<open>
  Claim C8 as written does not hold. With \<^verbatim>\<open>str_1\<close> registered for controller 0, a
  request whose generated identifier is \<^verbatim>\<open>str_1\<close> again is not refused: the entry is
  overwritten with controller 1, the collaborator is invoked, and the cleanup at the end
  removes the entry, so that the first stream can no longer be aborted.
\<close>

theorem register_overwrites_counterexample:
  "map_of (activeStreams ex_streaming) ''str_1'' = Some 0
   \<and> gen_streamId ex_env = ''str_1''
   \<and> map_of (activeStreams (activeStreams_set (fst (newAbortController ex_streaming)) ''str_1''
                               (snd (newAbortController ex_streaming)))) ''str_1'' = Some 1
   \<and> snd (stream_handler ex_config ex_streaming
            (ex_env\<lparr> result := Threw (PlainError ''socket hang up'') \<rparr>)
            (ParseSuccess ex_request)) =
       [RegistrySet ''str_1'' 1, WriteHead 200, SendEvent (StreamStart ''str_1''),
        MembraneStream (buildNormalizedRequest ex_request ex_config) 1,
        SendEvent (Chunk ''Checking.'' ''text'' True 0),
        ProviderHealth ''anthropic'' False,
        SendEvent (ErrorEvent \<lparr> code = ''internal_error'', message_text = ''socket hang up'',
                                retryable = False \<rparr>),
        RegistryDelete ''str_1'', EndReply]
   \<and> activeStreams (fst (stream_handler ex_config ex_streaming
            (ex_env\<lparr> result := Threw (PlainError ''socket hang up'') \<rparr>)
            (ParseSuccess ex_request))) = []"
  by (simp add: ex_defs handler_defs)

section \<open>Tool calls and sessions\<close>

lemma forward_callback_not_terminal:
  "ev \<in> set (forward_callback cb) \<Longrightarrow>
   \<not> is_tool_calls (SendEvent ev) \<and> \<not> is_done (SendEvent ev)"
  by (cases cb) (auto split: if_splits)

lemma sent_forward_not_terminal:
  "e \<in> set (sent forward_callback cbs) \<Longrightarrow> \<not> is_tool_calls e \<and> \<not> is_done e"
  by (auto simp: sent_def dest: forward_callback_not_terminal)

lemma terminal_events_sent [simp]:
  "terminal_events (sent forward_callback cbs) = []"
  "filter is_tool_calls (sent forward_callback cbs) = []"
  by (auto simp: terminal_events_def filter_empty_conv dest: sent_forward_not_terminal)

lemma terminal_events_append [simp]:
  "terminal_events (xs @ ys) = terminal_events xs @ terminal_events ys"
  by (simp add: terminal_events_def)

lemma terminal_events_Cons:
  "terminal_events (x # xs) = (if is_tool_calls x \<or> is_done x then [x] else []) @ terminal_events xs"
  by (simp add: terminal_events_def)

lemma terminal_events_Nil [simp]: "terminal_events [] = []"
  by (simp add: terminal_events_def)

lemma stream_try_tool_use:
  assumes "createMembrane_throws env = None" "req_continueFrom req = None"
    "result env = Returned r" "r_toolCalls r \<noteq> []" "r_stopReason r = ''tool_use''"
  shows "\<exists>session.
     stream_try config st env req prov sid ctl =
       ((st\<lparr> sessions := AList.update (gen_sessionId env) session (sessions st) \<rparr>,
         MembraneStream (buildNormalizedRequest req config) ctl
           # sent forward_callback (callbacks env)
           @ [ProviderHealth prov True,
              SendEvent (ToolCalls (r_toolCalls r) (gen_sessionId env)),
              SendEvent (Done (buildCompletionResponse r prov (now_done env - now_start env)))]),
        None)
     \<and> toolCalls session = r_toolCalls r \<and> usage session = r_usage r
     \<and> expiresAt session = now_create env + default_ttl"
  using assms
  by (simp add: stream_try_def Let_def createSession_def) (rule exI conjI refl | simp)+

lemma stream_try_other_stop:
  assumes "result env = Returned r" "r_stopReason r \<noteq> ''tool_use''"
  shows "filter is_tool_calls (snd (fst (stream_try config st env req prov sid ctl))) = []
    \<and> sessions (fst (fst (stream_try config st env req prov sid ctl))) = sessions st"
  using assms
  by (simp add: stream_try_def Let_def cleanupStream_def split: option.splits)

lemma filter_catch_block [simp]:
  "filter is_tool_calls (catch_block p e) = []" "terminal_events (catch_block p e) = []"
  by (auto simp: catch_block_def terminal_events_def split: option.splits)

lemma copy_results [simp]:
  "map (\<lambda>r. \<lparr> toolUseId = toolUseId r, result_content = result_content r,
               isError = isError r \<rparr>) items = items"
  by (induct items) auto

lemma copy_toolResults_Some [simp]:
  "copy_toolResults (map Some items) = Inr items"
  by (induct items) auto

lemma continue_try_sessions:
  "sessions (fst (fst (continue_try st env sid s elements ctl))) =
     (case createMembrane_throws env of
        Some e \<Rightarrow> sessions st
      | None \<Rightarrow>
          (case copy_toolResults elements of
             Inl e \<Rightarrow> sessions st
           | Inr items \<Rightarrow>
               (let s1 = s\<lparr> executedToolResults := executedToolResults s @ items \<rparr>;
                    ss1 = AList.update sid s1 (sessions st)
                in case result env of
                     Threw e \<Rightarrow> ss1
                   | Aborted ab \<Rightarrow> AList.delete sid ss1
                   | Returned r \<Rightarrow>
                       if r_toolCalls r \<noteq> [] \<and> r_stopReason r = ''tool_use''
                       then fst (updateSession ss1 (now_update env) (now_expiry env) sid
                                   (merged_updates s1 r))
                       else AList.delete sid ss1)))"
  by (simp add: continue_try_def Let_def deleteSession_def
      split: option.splits sum.splits stream_result.splits prod.splits)

lemma continue_try_terminal:
  assumes "createMembrane_throws env = None" "result env = Returned r"
    "copy_toolResults elements = Inr items"
  shows "terminal_events (snd (fst (continue_try st env sid s elements ctl))) =
     (if r_toolCalls r \<noteq> [] \<and> r_stopReason r = ''tool_use''
      then [SendEvent (ToolCalls (r_toolCalls r) sid),
            SendEvent (Done (buildCompletionResponse r (provider s)
                               (now_done env - now_start env)))]
      else [SendEvent (Done (buildCompletionResponse r (provider s)
                               (now_done env - now_start env)))])"
    and "snd (continue_try st env sid s elements ctl) = None"
  using assms
  by (simp_all add: continue_try_def Let_def terminal_events_Cons split: prod.splits)

lemma continue_try_no_tool_calls:
  assumes "\<forall>r. result env = Returned r \<longrightarrow> r_stopReason r \<noteq> ''tool_use'' \<or> r_toolCalls r = []"
  shows "filter is_tool_calls (snd (fst (continue_try st env sid s elements ctl))) = []"
  using assms
  by (auto simp: continue_try_def Let_def
      split: option.splits sum.splits stream_result.splits prod.splits)

lemma stream_try_no_tool_calls:
  assumes "\<forall>r. result env = Returned r \<longrightarrow> r_stopReason r \<noteq> ''tool_use'' \<or> r_toolCalls r = []"
  shows "filter is_tool_calls (snd (fst (stream_try config st env req prov sid ctl))) = []"
    and "sessions (fst (fst (stream_try config st env req prov sid ctl))) = sessions st"
  using assms
  by (auto simp: stream_try_def Let_def cleanupStream_def
      split: option.splits stream_result.splits)

lemma sent_context_no_tool_calls [simp]:
  "filter is_tool_calls (sent forward_context_callback cbs) = []"
proof -
  have "\<not> is_tool_calls (SendEvent ev)" if "ev \<in> set (forward_context_callback cb)" for ev cb
    using that by (cases cb) auto
  then show ?thesis
    by (auto simp: sent_def filter_empty_conv)
qed

lemma context_try_no_tool_calls:
  "filter is_tool_calls (snd (fst (context_try config st env req prov ctl))) = []"
  by (simp add: context_try_def Let_def split: option.splits stream_result.splits)

lemma context_stream_handler_no_tool_calls:
  "filter is_tool_calls (snd (context_stream_handler config st env body)) = []"
proof (cases body)
  case (ParseFailure issues)
  then show ?thesis by (simp add: context_stream_handler_def invalid_body_def)
next
  case (ParseSuccess req)
  then show ?thesis
    by (simp add: context_stream_handler_unfold Let_def context_try_no_tool_calls)
qed

lemma context_stream_handler_sessions:
  "sessions (fst (context_stream_handler config st env body)) = sessions st"
proof (cases body)
  case (ParseFailure issues)
  then show ?thesis by (simp add: context_stream_handler_def)
next
  case (ParseSuccess req)
  then show ?thesis
    by (simp add: context_stream_handler_unfold Let_def context_try_state cleanupStream_def
        activeStreams_set_def newAbortController_def)
qed

lemma continue_try_sessions_cong:
  "sessions st1 = sessions st \<Longrightarrow>
   sessions (fst (fst (continue_try st1 env sid s elements c1)))
     = sessions (fst (fst (continue_try st env sid s elements ctl)))"
  by (simp add: continue_try_sessions split: option.splits sum.splits)

lemma continue_handler_sessions:
  assumes "truthy (body_sessionId body)" "isArray (body_toolResults body)"
    "getSession_field (sessions st) (now_get env) (body_sessionId body) = (ss, Some s)"
  shows "sessions (fst (continue_handler st env body)) =
     sessions (fst (fst (continue_try st env (id_string (body_sessionId body)) s
                           (array_elements (body_toolResults body)) ctl)))"
proof -
  from getSession_field_found [OF assms(3)] have ss: "ss = sessions st" by simp
  have "sessions (fst (continue_handler st env body)) =
     sessions (fst (fst (continue_try
        (activeStreams_set (fst (newAbortController (st\<lparr> sessions := ss \<rparr>)))
           (gen_streamId env) (nextController st))
        env (id_string (body_sessionId body)) s
        (array_elements (body_toolResults body)) (nextController st))))"
    by (simp add: continue_handler_unfold [OF assms] Let_def cleanupStream_def)
  also have "\<dots> = sessions (fst (fst (continue_try st env (id_string (body_sessionId body)) s
                           (array_elements (body_toolResults body)) ctl)))"
    by (rule continue_try_sessions_cong)
       (simp add: activeStreams_set_def newAbortController_def ss)
  finally show ?thesis .
qed

lemma continue_try_no_new_sessions:
  assumes "sid \<in> fst ` set (sessions st)"
  shows "fst ` set (sessions (fst (fst (continue_try st env sid s elements ctl))))
           \<subseteq> fst ` set (sessions st)"
    and "length (sessions (fst (fst (continue_try st env sid s elements ctl))))
           \<le> length (sessions st)"
proof -
  have ks: "fst ` set (AList.update sid x (sessions st)) = fst ` set (sessions st)" for x
    using assms by (auto simp: dom_update)
  have ls: "length (AList.update sid x (sessions st)) = length (sessions st)" for x
    using assms by (simp add: length_alist_update)
  have dk: "fst ` set (AList.delete sid (AList.update sid x (sessions st)))
              \<subseteq> fst ` set (sessions st)" for x
    using delete_keys_subset [of sid "AList.update sid x (sessions st)"] by (simp add: ks)
  have dl: "length (AList.delete sid (AList.update sid x (sessions st)))
              \<le> length (sessions st)" for x
    using length_delete_le [of sid "AList.update sid x (sessions st)"] by (simp add: ls)
  have uk: "fst ` set (fst (updateSession (AList.update sid x (sessions st)) n n' sid u))
              \<subseteq> fst ` set (sessions st)" for x n n' u
    using updateSession_keys [of "AList.update sid x (sessions st)" n n' sid u] by (simp add: ks)
  have ul: "length (fst (updateSession (AList.update sid x (sessions st)) n n' sid u))
              \<le> length (sessions st)" for x n n' u
    using updateSession_length [of "AList.update sid x (sessions st)" n n' sid u]
    by (simp add: ls)
  show "fst ` set (sessions (fst (fst (continue_try st env sid s elements ctl))))
           \<subseteq> fst ` set (sessions st)"
    by (simp add: continue_try_sessions Let_def ks dk uk
        split: option.splits sum.splits stream_result.splits)
  show "length (sessions (fst (fst (continue_try st env sid s elements ctl))))
           \<le> length (sessions st)"
    by (simp add: continue_try_sessions Let_def ls dl ul
        split: option.splits sum.splits stream_result.splits)
qed

lemma getSession_field_store:
  "fst (getSession_field ss now f) = ss \<or> (\<exists>i. fst (getSession_field ss now f) = AList.delete i ss)"
  by (cases f) (auto simp: getSession_def split: option.splits)

lemma continue_handler_no_new_sessions:
  "fst ` set (sessions (fst (continue_handler st env body))) \<subseteq> fst ` set (sessions st)
   \<and> getSessionCount (sessions (fst (continue_handler st env body)))
       \<le> getSessionCount (sessions st)"
proof (cases "truthy (body_sessionId body) \<and> isArray (body_toolResults body)")
  case False
  then have "continue_handler st env body
      = (st, [ReplySend 400 (ErrorBody invalid_continue_request None)])"
    by (intro continue_handler_invalid) auto
  then show ?thesis by simp
next
  case True
  obtain ss r where g: "getSession_field (sessions st) (now_get env) (body_sessionId body) = (ss, r)"
    by (cases "getSession_field (sessions st) (now_get env) (body_sessionId body)")
  show ?thesis
  proof (cases r)
    case None
    with True g have e: "continue_handler st env body =
        (st\<lparr> sessions := ss \<rparr>, [ReplySend 404 (ErrorBody session_not_found None)])"
      by (simp add: continue_handler_miss)
    from getSession_field_store [of "sessions st" "now_get env" "body_sessionId body"] g
    have "ss = sessions st \<or> (\<exists>i. ss = AList.delete i (sessions st))" by simp
    then have "fst ` set ss \<subseteq> fst ` set (sessions st) \<and> length ss \<le> length (sessions st)"
      using delete_keys_subset [of _ "sessions st"] length_delete_le [of _ "sessions st"]
      by blast
    then show ?thesis
      by (simp add: e getSessionCount_def)
  next
    case (Some s)
    with True g have v: "truthy (body_sessionId body)" "isArray (body_toolResults body)"
      "getSession_field (sessions st) (now_get env) (body_sessionId body) = (ss, Some s)"
      by simp_all
    from getSession_field_found [OF v(3)]
    have "map_of (sessions st) (id_string (body_sessionId body)) = Some s" by simp
    then have k: "id_string (body_sessionId body) \<in> fst ` set (sessions st)"
      by (metis fst_conv image_eqI map_of_SomeD)
    show ?thesis
      using continue_try_no_new_sessions [OF k, of env s "array_elements (body_toolResults body)" 0]
      by (simp add: continue_handler_sessions [OF v, of 0] getSessionCount_def)
  qed
qed

lemma continue_handler_no_tool_calls:
  assumes "\<forall>r. result env = Returned r \<longrightarrow> r_stopReason r \<noteq> ''tool_use'' \<or> r_toolCalls r = []"
  shows "filter is_tool_calls (snd (continue_handler st env body)) = []"
proof (cases "truthy (body_sessionId body) \<and> isArray (body_toolResults body)")
  case False
  then have "continue_handler st env body
      = (st, [ReplySend 400 (ErrorBody invalid_continue_request None)])"
    by (intro continue_handler_invalid) auto
  then show ?thesis by simp
next
  case True
  obtain ss r where g: "getSession_field (sessions st) (now_get env) (body_sessionId body) = (ss, r)"
    by (cases "getSession_field (sessions st) (now_get env) (body_sessionId body)")
  show ?thesis
  proof (cases r)
    case None
    with True g have "continue_handler st env body =
        (st\<lparr> sessions := ss \<rparr>, [ReplySend 404 (ErrorBody session_not_found None)])"
      by (simp add: continue_handler_miss)
    then show ?thesis by simp
  next
    case (Some s)
    with True g have v: "truthy (body_sessionId body)" "isArray (body_toolResults body)"
      "getSession_field (sessions st) (now_get env) (body_sessionId body) = (ss, Some s)"
      by simp_all
    show ?thesis
      by (simp add: continue_handler_unfold [OF v] Let_def continue_try_no_tool_calls [OF assms])
  qed
qed

lemma stream_handler_no_tool_calls:
  assumes "\<forall>r. result env = Returned r \<longrightarrow> r_stopReason r \<noteq> ''tool_use'' \<or> r_toolCalls r = []"
  shows "filter is_tool_calls (snd (stream_handler config st env body)) = []
    \<and> sessions (fst (stream_handler config st env body)) = sessions st"
proof (cases body)
  case (ParseFailure issues)
  then show ?thesis by (simp add: stream_handler_def invalid_body_def)
next
  case (ParseSuccess req)
  then show ?thesis
    by (simp add: stream_handler_unfold Let_def stream_try_no_tool_calls [OF assms]
        cleanupStream_def activeStreams_set_def newAbortController_def)
qed

lemma continue_handler_found:
  assumes "body_sessionId body = IdString sid" "sid \<noteq> []"
    "body_toolResults body = ResultArray elements"
    "map_of (sessions st) sid = Some s" "\<not> expiresAt s < now_get env"
  shows "sessions (fst (continue_handler st env body)) =
     sessions (fst (fst (continue_try st env sid s elements 0)))"
proof -
  have g: "getSession_field (sessions st) (now_get env) (body_sessionId body)
             = (sessions st, Some s)"
    using assms by (simp add: getSession_live)
  have "truthy (body_sessionId body)" "isArray (body_toolResults body)"
    using assms by simp_all
  from continue_handler_sessions [OF this g, of 0] assms show ?thesis by simp
qed

lemma continue_handler_merges:
  assumes "body_sessionId body = IdString sid" "sid \<noteq> []"
    "body_toolResults body = ResultArray (map Some items)"
    "map_of (sessions st) sid = Some s" "\<not> expiresAt s < now_get env"
    "createMembrane_throws env = None" "result env = Returned r"
    "r_stopReason r = ''tool_use''" "r_toolCalls r \<noteq> []"
  shows "sessions (fst (continue_handler st env body)) =
     fst (updateSession
            (AList.update sid (s\<lparr> executedToolResults := executedToolResults s @ items \<rparr>)
               (sessions st))
            (now_update env) (now_expiry env) sid
            (merged_updates (s\<lparr> executedToolResults := executedToolResults s @ items \<rparr>) r))"
    and "terminal_events (snd (continue_handler st env body)) =
       [SendEvent (ToolCalls (r_toolCalls r) sid),
        SendEvent (Done (buildCompletionResponse r (provider s)
                           (now_done env - now_start env)))]"
proof -
  have g: "getSession_field (sessions st) (now_get env) (body_sessionId body)
             = (sessions st, Some s)"
    using assms by (simp add: getSession_live)
  have v: "truthy (body_sessionId body)" "isArray (body_toolResults body)"
    using assms by simp_all
  show "sessions (fst (continue_handler st env body)) =
     fst (updateSession
            (AList.update sid (s\<lparr> executedToolResults := executedToolResults s @ items \<rparr>)
               (sessions st))
            (now_update env) (now_expiry env) sid
            (merged_updates (s\<lparr> executedToolResults := executedToolResults s @ items \<rparr>) r))"
    using assms
    by (simp add: continue_handler_found [OF assms(1,2,3,4,5)] continue_try_sessions Let_def)
  show "terminal_events (snd (continue_handler st env body)) =
       [SendEvent (ToolCalls (r_toolCalls r) sid),
        SendEvent (Done (buildCompletionResponse r (provider s)
                           (now_done env - now_start env)))]"
    using assms
    by (simp add: continue_handler_unfold [OF v g] Let_def terminal_events_Cons
        continue_try_terminal [OF assms(6,7) copy_toolResults_Some])
qed

lemma merged_record:
  "(assign_updates (s\<lparr> executedToolResults := executedToolResults s @ items \<rparr>)
      (merged_updates (s\<lparr> executedToolResults := executedToolResults s @ items \<rparr>) r))
     \<lparr> expiresAt := t \<rparr>
   = s\<lparr> rawAssistantText := rawAssistantText s @ r_rawAssistantText r,
        contentBlocks := r_content r,
        toolCalls := r_toolCalls r,
        executedToolResults := executedToolResults s @ items,
        usage := \<lparr> inputTokens = inputTokens (usage s) + inputTokens (r_usage r),
                   outputTokens = outputTokens (usage s) + outputTokens (r_usage r) \<rparr>,
        expiresAt := t \<rparr>"
  by (simp add: assign_updates_def merged_updates_def)







section \<open>Who changes a session\<close>

lemma stream_try_sessions:
  "k \<noteq> gen_sessionId env \<Longrightarrow>
   map_of (sessions (fst (fst (stream_try config st env req prov sid ctl)))) k
     = map_of (sessions st) k"
  by (simp add: stream_try_def Let_def cleanupStream_def createSession_def update_conv'
      split: option.splits stream_result.splits)

lemma stream_handler_sessions:
  "k \<noteq> gen_sessionId env \<Longrightarrow>
   map_of (sessions (fst (stream_handler config st env body))) k = map_of (sessions st) k"
proof (cases body)
  case (ParseFailure issues)
  then show ?thesis by (simp add: stream_handler_def)
next
  case (ParseSuccess req)
  assume k: "k \<noteq> gen_sessionId env"
  define st1 where "st1 = activeStreams_set (fst (newAbortController st)) (gen_streamId env)
                            (nextController st)"
  define prov where "prov = (case req_provider req of None \<Rightarrow> defaultProvider config | Some p \<Rightarrow> p)"
  have s1: "sessions st1 = sessions st"
    by (simp add: st1_def activeStreams_set_def newAbortController_def)
  have "map_of (sessions (fst (fst (stream_try config st1 env req prov (gen_streamId env)
                                      (nextController st))))) k = map_of (sessions st1) k"
    using k by (rule stream_try_sessions)
  then show ?thesis
    by (simp add: ParseSuccess stream_handler_unfold Let_def cleanupStream_def s1
        st1_def [symmetric] prov_def [symmetric])
qed

lemma complete_handler_sessions:
  "fst (complete_handler config st env outcome body) = st"
  by (simp add: complete_handler_def Let_def split: parse_result.splits option.splits sum.splits)

text \<open>
  Claim C9, as the code has it. The continuation handler appends the tool results of
  the request to \<^verbatim>\<open>executedToolResults\<close> of the session itself, without
  \<^verbatim>\<open>updateSession\<close> and without a new expiration. Apart from that, a session in the
  store changes only through the store: after a continuation round the session is
  removed, or it is as it was but for the appended tool results, or it is what
  \<^verbatim>\<open>updateSession\<close> returned, expiring five minutes after the update; every other
  session is untouched. \<^verbatim>\<open>/v1/stream\<close> changes no session but the one it creates, and
  the context, completion and abort handlers leave the store as it is.
\<close>

theorem session_mutations:
  "(body_sessionId body = IdString sid \<and> sid \<noteq> [] \<and> body_toolResults body = ResultArray (map Some items)
    \<and> map_of (sessions st) sid = Some s \<and> \<not> expiresAt s < now_get env
    \<longrightarrow> (createMembrane_throws env \<noteq> None \<longrightarrow>
           map_of (sessions (fst (continue_handler st env body))) sid = Some s)
        \<and> (createMembrane_throws env = None \<longrightarrow>
             map_of (sessions (fst (continue_handler st env body))) sid = None
             \<or> map_of (sessions (fst (continue_handler st env body))) sid
                 = Some (s\<lparr> executedToolResults := executedToolResults s @ items \<rparr>)
             \<or> (\<exists>r. result env = Returned r
                  \<and> map_of (sessions (fst (continue_handler st env body))) sid
                      = snd (updateSession
                               (AList.update sid
                                  (s\<lparr> executedToolResults := executedToolResults s @ items \<rparr>)
                                  (sessions st))
                               (now_update env) (now_expiry env) sid
                               (merged_updates
                                  (s\<lparr> executedToolResults := executedToolResults s @ items \<rparr>) r))
                  \<and> map_option expiresAt
                        (map_of (sessions (fst (continue_handler st env body))) sid)
                      = Some (now_expiry env + 5 * 60 * 1000)))
        \<and> (\<forall>k. k \<noteq> sid \<longrightarrow>
              map_of (sessions (fst (continue_handler st env body))) k = map_of (sessions st) k))
   \<and> (\<forall>k. k \<noteq> gen_sessionId env \<longrightarrow>
         map_of (sessions (fst (stream_handler config st env sbody))) k = map_of (sessions st) k)
   \<and> sessions (fst (context_stream_handler config st env xbody)) = sessions st
   \<and> sessions (fst (complete_handler config st env outcome sbody)) = sessions st
   \<and> sessions (fst (abort_handler st streamId)) = sessions st"
proof (intro conjI impI allI)
  assume a: "body_sessionId body = IdString sid \<and> sid \<noteq> [] \<and> body_toolResults body = ResultArray (map Some items)
    \<and> map_of (sessions st) sid = Some s \<and> \<not> expiresAt s < now_get env"
  define s1 where "s1 = s\<lparr> executedToolResults := executedToolResults s @ items \<rparr>"
  define ss1 where "ss1 = AList.update sid s1 (sessions st)"
  have m1: "map_of ss1 sid = Some s1" by (simp add: ss1_def update_conv')
  from a have f: "sessions (fst (continue_handler st env body)) =
     (case createMembrane_throws env of
        Some e \<Rightarrow> sessions st
      | None \<Rightarrow>
          (case result env of
             Threw e \<Rightarrow> ss1
           | Aborted ab \<Rightarrow> AList.delete sid ss1
           | Returned r \<Rightarrow>
               if r_toolCalls r \<noteq> [] \<and> r_stopReason r = ''tool_use''
               then fst (updateSession ss1 (now_update env) (now_expiry env) sid
                           (merged_updates s1 r))
               else AList.delete sid ss1))"
    by (simp add: continue_handler_found continue_try_sessions Let_def s1_def ss1_def
        split: option.splits stream_result.splits)
  show "map_of (sessions (fst (continue_handler st env body))) sid = Some s"
    if "createMembrane_throws env \<noteq> None"
    using that a by (auto simp: f)
  show "map_of (sessions (fst (continue_handler st env body))) sid = None
             \<or> map_of (sessions (fst (continue_handler st env body))) sid
                 = Some (s\<lparr> executedToolResults := executedToolResults s @ items \<rparr>)
             \<or> (\<exists>r. result env = Returned r
                  \<and> map_of (sessions (fst (continue_handler st env body))) sid
                      = snd (updateSession
                               (AList.update sid
                                  (s\<lparr> executedToolResults := executedToolResults s @ items \<rparr>)
                                  (sessions st))
                               (now_update env) (now_expiry env) sid
                               (merged_updates
                                  (s\<lparr> executedToolResults := executedToolResults s @ items \<rparr>) r))
                  \<and> map_option expiresAt
                        (map_of (sessions (fst (continue_handler st env body))) sid)
                      = Some (now_expiry env + 5 * 60 * 1000))"
    if c: "createMembrane_throws env = None"
  proof (cases "result env")
    case (Threw e)
    with c show ?thesis by (simp add: f m1) (simp add: s1_def)
  next
    case (Aborted ab)
    with c show ?thesis by (simp add: f delete_conv')
  next
    case (Returned r)
    show ?thesis
    proof (cases "r_toolCalls r \<noteq> [] \<and> r_stopReason r = ''tool_use''
                  \<and> \<not> expiresAt s1 < now_update env")
      case True
      with c Returned m1 have
        "map_of (sessions (fst (continue_handler st env body))) sid
           = Some ((assign_updates s1 (merged_updates s1 r))
                     \<lparr> expiresAt := now_expiry env + 300000 \<rparr>)"
        "snd (updateSession ss1 (now_update env) (now_expiry env) sid (merged_updates s1 r))
           = Some ((assign_updates s1 (merged_updates s1 r))
                     \<lparr> expiresAt := now_expiry env + 300000 \<rparr>)"
        by (simp_all add: f map_of_updateSession updateSession_live update_conv')
      with Returned show ?thesis by (simp add: s1_def ss1_def)
    next
      case False
      with c Returned m1 have "map_of (sessions (fst (continue_handler st env body))) sid = None"
        by (auto simp: f map_of_updateSession delete_conv')
      then show ?thesis by simp
    qed
  qed
  show "map_of (sessions (fst (continue_handler st env body))) k = map_of (sessions st) k"
    if "k \<noteq> sid" for k
    using that
    by (simp add: f map_of_updateSession_other ss1_def update_conv' delete_conv'
        split: option.splits stream_result.splits)
next
  show "map_of (sessions (fst (stream_handler config st env sbody))) k = map_of (sessions st) k"
    if "k \<noteq> gen_sessionId env" for k
    using that by (rule stream_handler_sessions)
next
  show "sessions (fst (context_stream_handler config st env xbody)) = sessions st"
    by (rule context_stream_handler_sessions)
next
  show "sessions (fst (complete_handler config st env outcome sbody)) = sessions st"
    by (simp add: complete_handler_sessions)
next
  show "sessions (fst (abort_handler st streamId)) = sessions st"
    by (simp add: abort_handler_def cleanupStream_def split: option.splits)
qed

theorem session_mutations_witness:
  "body_sessionId ex_continue_body = IdString ''sess_1''
   \<and> body_toolResults ex_continue_body = ResultArray (map Some [ex_tool_result])
   \<and> map_of (sessions ex_suspended) ''sess_1'' = Some ex_session
   \<and> \<not> expiresAt ex_session < now_get ex_env
   \<and> createMembrane_throws ex_env = None
   \<and> map_option expiresAt
        (map_of (sessions (fst (continue_handler ex_suspended ex_env ex_continue_body))) ''sess_1'')
       = Some 302000
   \<and> map_option executedToolResults
        (map_of (sessions (fst (continue_handler ex_suspended ex_env ex_continue_body))) ''sess_1'')
       = Some [ex_tool_result]
   \<and> map_of (sessions (fst (stream_handler ex_config ex_suspended ex_env
                               (ParseSuccess ex_request)))) ''sess_1'' = Some ex_session"
  using session_mutations
    [of ex_continue_body "''sess_1''" "[ex_tool_result]" ex_suspended ex_session ex_env
        ex_config "ParseSuccess ex_request"]
  by (simp add: ex_defs handler_defs store_defs)

text \<open>
  Claim C9 as written does not hold. When the collaborator throws during a continuation
  round, the session is still in the store with the request's tool result appended to
  \<^verbatim>\<open>executedToolResults\<close>, and its expiration is the one from before, 300000, although
  the handler ran at times 1000 to 2000: the session was changed without
  \<^verbatim>\<open>updateSession\<close> and its expiration clock was not reset.
\<close>

theorem session_mutations_counterexample:
  "map_of (sessions ex_suspended) ''sess_1'' = Some ex_session
   \<and> executedToolResults ex_session = []
   \<and> expiresAt ex_session = 300000
   \<and> map_option executedToolResults
        (map_of (sessions (fst (continue_handler ex_suspended
                                  (ex_env\<lparr> result := Threw (PlainError ''socket hang up'') \<rparr>)
                                  ex_continue_body))) ''sess_1'')
       = Some [ex_tool_result]
   \<and> map_option expiresAt
        (map_of (sessions (fst (continue_handler ex_suspended
                                  (ex_env\<lparr> result := Threw (PlainError ''socket hang up'') \<rparr>)
                                  ex_continue_body))) ''sess_1'')
       = Some 300000
   \<and> now_get ex_env = 1000"
  by (simp add: ex_defs handler_defs store_defs)

end
